theory Spec2Isabelle
  imports Main "HOL-Library.AList"
begin

section \<open>Environment initialization (packages/amplify-cli/src/initialize-env.ts)\<close>

subsection \<open>JavaScript values\<close>

text \<open>
  The metadata handled by \<open>initializeEnv\<close> is untyped JSON (\<open>$TSMeta = any\<close>).
  An object is an association list in property order; a property that was
  never set reads as \<open>JUndefined\<close>. Strings are the only primitives that occur
  as leaves. Prototype properties are not modelled: the keys read by the code
  are \<open>providers\<close>, \<open>awscloudformation\<close>, \<open>hosting\<close>, \<open>ElasticContainer\<close>, provider
  names and environment names.
\<close>

datatype jv =
    JUndefined
  | JStr string
  | JObject "(string \<times> jv) list"

type_synonym obj = "(string \<times> jv) list"

text \<open>
  Thrown values. \<open>JsError name message\<close> is an ordinary \<open>Error\<close> object (a
  rejected hook, a failed module load, an engine \<open>TypeError\<close>, with the message
  Node.js gives it). Every thrown value of the model is an \<open>Error\<close> object, as the
  \<open>catch\<close> blocks of the source take it to be when they read \<open>e.message\<close>.
  Stack traces are left out of the model.
\<close>

datatype error =
    JsError string string
  | AmplifyFault string string "string option" string error

fun messageOf :: "error \<Rightarrow> string" where
  "messageOf (JsError n m) = m"
| "messageOf (AmplifyFault n m d r c) = m"

definition typeError :: "string \<Rightarrow> error" where
  "typeError m = JsError ''TypeError'' m"

text \<open>Modelled from the spec: \<open>amplifyFaultWithTroubleshootingLink\<close>
  (amplify-cli-core, not among the sources) builds the single fault of a failed
  phase: \<open>AmplifyFault name message details resolution cause\<close> carries the
  fault's name, the message, details and resolution hint of the options it is
  given, and the underlying error as cause; its \<open>message\<close> is that message.\<close>

definition amplifyFaultWithTroubleshootingLink ::
    "string \<Rightarrow> string \<Rightarrow> string option \<Rightarrow> string \<Rightarrow> error \<Rightarrow> error" where
  "amplifyFaultWithTroubleshootingLink name message details resolution cause =
     AmplifyFault name message details resolution cause"

definition quoted :: "string \<Rightarrow> string" where
  "quoted s = CHR 0x27 # s @ [CHR 0x27]"

text \<open>\<open>o[k]\<close>: reading a property of \<open>undefined\<close> throws, of a string yields
  \<open>undefined\<close> for the keys above, of an object yields the value or \<open>undefined\<close>.\<close>

fun getProp :: "jv \<Rightarrow> string \<Rightarrow> error + jv" where
  "getProp JUndefined k =
     Inl (typeError (''Cannot read properties of undefined (reading '' @ quoted k @ '')''))"
| "getProp (JStr s) k = Inr JUndefined"
| "getProp (JObject kvs) k = Inr (case map_of kvs k of None \<Rightarrow> JUndefined | Some v \<Rightarrow> v)"

text \<open>\<open>o?.[k]\<close>: optional chaining never throws.\<close>

fun optChain :: "jv \<Rightarrow> string \<Rightarrow> jv" where
  "optChain JUndefined k = JUndefined"
| "optChain (JStr s) k = JUndefined"
| "optChain (JObject kvs) k = (case map_of kvs k of None \<Rightarrow> JUndefined | Some v \<Rightarrow> v)"

text \<open>\<open>o[k] = v\<close> on an object: an existing property keeps its place, a new
  one is added at the end.\<close>

definition setProp :: "obj \<Rightarrow> string \<Rightarrow> jv \<Rightarrow> obj" where
  "setProp kvs k v = AList.update k v kvs"

text \<open>Decimal rendering of an array index, for the own properties of a boxed
  string: its indices and \<open>length\<close> (strings of one-byte characters).\<close>

fun showNat :: "nat \<Rightarrow> string" where
  "showNat n =
     (if n < 10 then [char_of (48 + n)]
      else showNat (n div 10) @ [char_of (48 + n mod 10)])"

definition stringOwnKey :: "string \<Rightarrow> string \<Rightarrow> bool" where
  "stringOwnKey s k = (k = ''length'' \<or> k \<in> set (map showNat [0..<length s]))"

text \<open>
  \<open>Object.assign(target, source)\<close> with an object as source: the source's
  properties are set on the target one by one, in the source's order. An
  \<open>undefined\<close> target throws. A string target is boxed: the box is thrown
  away, so the target is unchanged, unless the source names one of the box's
  read-only own properties, which throws.
\<close>

definition assignAll :: "obj \<Rightarrow> obj \<Rightarrow> obj" where
  "assignAll target source = fold (\<lambda>(k, v) t. setProp t k v) source target"

fun objectAssign :: "jv \<Rightarrow> obj \<Rightarrow> error + jv" where
  "objectAssign JUndefined source =
     Inl (typeError ''Cannot convert undefined or null to object'')"
| "objectAssign (JStr s) source =
     (case filter (stringOwnKey s) (map fst source) of
        [] \<Rightarrow> Inr (JStr s)
      | k # _ \<Rightarrow> Inl (typeError (''Cannot assign to read only property '' @ quoted k
                                  @ '' of object '' @ quoted ''[object String]'')))"
| "objectAssign (JObject target) source = Inr (JObject (assignAll target source))"

subsection \<open>The context, the collaborators and the trace\<close>

text \<open>
  \<open>context.exeInfo\<close> and \<open>context.input\<close>, with the fields the function reads.
  \<open>forcePush = None\<close> is \<open>undefined\<close>. \<open>metaFile\<close> is what
  \<open>stateManager.getMeta()\<close> yields at the moment: the parsed amplify-meta.json
  or the error of a failed read.
\<close>

record exeInfo =
  envName :: string
  projectPath :: string
  restoreBackend :: bool
  providers :: "string list"
  forcePush :: "bool option"

record ctx =
  exeInfo :: exeInfo
  command :: string
  subCommands :: "string list"
  metaFile :: "error + obj"

text \<open>A loaded plugin module: its optional hooks, named by an identifier
  whose behaviour the world gives.\<close>

type_synonym hookId = string

record pmodule =
  initEnv :: "hookId option"
  pushResources :: "hookId option"

record pluginInfo =
  packageLocation :: string

text \<open>\<open>IEnvironmentParameterManager\<close> and the resource parameter manager it hands out.\<close>

record resourceParamManager =
  hasAnyParams :: bool
  getAllParams :: obj

record envParamManager =
  hasResourceParamManager :: "string \<Rightarrow> string \<Rightarrow> bool"
  getResourceParamManager :: "string \<Rightarrow> string \<Rightarrow> resourceParamManager"

datatype timedCodePath = INIT_ENV_PLATFORM | INIT_ENV_CATEGORIES

text \<open>
  The closures queued by \<open>initializeEnv\<close>:
  \<open>() => initEnv(context)\<close>,
  \<open>() => providerModule.initEnv(context, amplifyMeta.providers[provider])\<close> and
  \<open>() => providerModule.pushResources(context, resourceDefinition)\<close>,
  each with the values it captured.
\<close>

datatype task =
    CategoryInitEnvTask hookId
  | ProviderInitEnvTask pmodule obj string
  | ProviderPushTask pmodule jv

text \<open>Every call the function makes on a collaborator is recorded, in order.\<close>

datatype event =
    GetTeamProviderInfo string
  | EnsureEnvParamManager string
  | GetBackendConfig string
  | HasResourceParamManager string string
  | HasAnyParams string string
  | GetAllParams string string
  | SetMeta string obj
  | GetMeta
  | GetAllCategoryPluginInfo
  | Import "string option"
  | GetProviderPlugins
  | SpinnerStart string
  | SpinnerSucceed string
  | SpinnerFail string
  | StartCodePathTimer timedCodePath
  | StopCodePathTimer timedCodePath
  | TaskStarted task
  | HookInvoked hookId "jv list"
  | GetProjectDetails
  | ConfirmPrompt string
  | GetResourceStatus string
  | OnCategoryOutputsChange jv
  | PrinterSuccess string

text \<open>
  The collaborators. Each may throw; each sees the current context. The
  spinner, the printer, the usage-data timers and the getters of the parameter
  managers only leave their event: they are taken not to throw. A hook
  gets the shared mutable context and returns it changed, whether it
  resolves or rejects. \<open>getProjectDetails\<close> yields the project details as
  the change \<open>Object.assign(context.exeInfo, projectDetails)\<close> makes to the
  fields above.
\<close>

record world =
  stateManager_getTeamProviderInfo :: "ctx \<Rightarrow> string \<Rightarrow> error + jv"
  ensureEnvParamManager :: "ctx \<Rightarrow> string \<Rightarrow> error + envParamManager"
  stateManager_getBackendConfig :: "ctx \<Rightarrow> string \<Rightarrow> error + obj"
  amplify_getAllCategoryPluginInfo :: "ctx \<Rightarrow> error + (string \<times> pluginInfo list) list"
  importModule :: "ctx \<Rightarrow> string option \<Rightarrow> error + pmodule"
  getProviderPlugins :: "ctx \<Rightarrow> error + (string \<times> string) list"
  amplify_getProjectDetails :: "ctx \<Rightarrow> error + (exeInfo \<Rightarrow> exeInfo)"
  amplify_confirmPrompt :: "ctx \<Rightarrow> string \<Rightarrow> error + bool"
  amplify_getResourceStatus :: "ctx \<Rightarrow> string \<Rightarrow> error + jv"
  amplify_onCategoryOutputsChange :: "ctx \<Rightarrow> jv \<Rightarrow> error + unit"
  runHook :: "hookId \<Rightarrow> jv list \<Rightarrow> ctx \<Rightarrow> (error + unit) \<times> ctx"

subsection \<open>Asynchronous code as state passing with exceptions\<close>

text \<open>
  An action takes the context and the trace so far and returns a value or
  the thrown error, with the context and trace as they are then.
\<close>

type_synonym state = "ctx \<times> event list"
type_synonym 'a action = "state \<Rightarrow> (error + 'a) \<times> state"

definition succeed :: "'a \<Rightarrow> 'a action" where
  "succeed x = (\<lambda>s. (Inr x, s))"

definition throwE :: "error \<Rightarrow> 'a action" where
  "throwE e = (\<lambda>s. (Inl e, s))"

definition andThen :: "'a action \<Rightarrow> ('a \<Rightarrow> 'b action) \<Rightarrow> 'b action" where
  "andThen m f = (\<lambda>s. case m s of (Inl e, s') \<Rightarrow> (Inl e, s') | (Inr x, s') \<Rightarrow> f x s')"

definition tryCatch :: "'a action \<Rightarrow> (error \<Rightarrow> 'a action) \<Rightarrow> 'a action" where
  "tryCatch m h = (\<lambda>s. case m s of (Inl e, s') \<Rightarrow> h e s' | (Inr x, s') \<Rightarrow> (Inr x, s'))"

definition tryFinally :: "'a action \<Rightarrow> unit action \<Rightarrow> 'a action" where
  "tryFinally m fin =
     (\<lambda>s. case m s of (r, s') \<Rightarrow>
        (case fin s' of (Inl e, s'') \<Rightarrow> (Inl e, s'') | (Inr u, s'') \<Rightarrow> (r, s'')))"

definition liftE :: "error + 'a \<Rightarrow> 'a action" where
  "liftE r = (\<lambda>s. (r, s))"

definition emit :: "event \<Rightarrow> unit action" where
  "emit ev = (\<lambda>(c, tr). (Inr (), (c, tr @ [ev])))"

definition call :: "event \<Rightarrow> (ctx \<Rightarrow> error + 'a) \<Rightarrow> 'a action" where
  "call ev f = (\<lambda>(c, tr). (f c, (c, tr @ [ev])))"

definition getCtx :: "ctx action" where
  "getCtx = (\<lambda>(c, tr). (Inr c, (c, tr)))"

definition modifyCtx :: "(ctx \<Rightarrow> ctx) \<Rightarrow> unit action" where
  "modifyCtx f = (\<lambda>(c, tr). (Inr (), (f c, tr)))"

subsection \<open>Configuration merge (lines 26-37, 153-170)\<close>

text \<open>Modelled from the spec: \<open>stateManager.setMeta\<close> (amplify-cli-core, not
  among the sources) as the meta store of the spec's external interfaces:
  \<open>setMeta(path, meta)\<close> persists the meta, so that it is what \<open>getMeta()\<close>
  yields from then on.\<close>

definition setMeta :: "string \<Rightarrow> obj \<Rightarrow> unit action" where
  "setMeta path meta =
     andThen (emit (SetMeta path meta)) (\<lambda>_.
     modifyCtx (\<lambda>c. c\<lparr>metaFile := Inr meta\<rparr>))"

text \<open>Modelled from the spec: \<open>stateManager.getMeta\<close> (amplify-cli-core, not
  among the sources): \<open>getMeta()\<close> yields the persisted meta, or throws when
  it cannot be read.\<close>

definition getMeta :: "obj action" where
  "getMeta = andThen (emit GetMeta) (\<lambda>_. andThen getCtx (\<lambda>c. liftE (metaFile c)))"

definition mergeBackendConfigIntoAmplifyMeta :: "world \<Rightarrow> string \<Rightarrow> obj \<Rightarrow> obj action" where
  "mergeBackendConfigIntoAmplifyMeta w path amplifyMeta =
     andThen (call (GetBackendConfig path) (\<lambda>c. stateManager_getBackendConfig w c path))
       (\<lambda>backendConfig. succeed (assignAll amplifyMeta backendConfig))"

text \<open>The object \<open>amplifyMeta[category][serviceName]\<close> is changed in place; in
  the model the changed object is put back where it was read.\<close>

definition putResource :: "obj \<Rightarrow> string \<Rightarrow> string \<Rightarrow> jv \<Rightarrow> obj" where
  "putResource amplifyMeta category serviceName v =
     (case map_of amplifyMeta category of
        Some (JObject resources) \<Rightarrow>
          setProp amplifyMeta category (JObject (setProp resources serviceName v))
      | _ \<Rightarrow> amplifyMeta)"

definition mergeCategoryEnvParamsIntoAmplifyMeta ::
    "envParamManager \<Rightarrow> obj \<Rightarrow> string \<Rightarrow> string \<Rightarrow> obj action" where
  "mergeCategoryEnvParamsIntoAmplifyMeta mgr amplifyMeta category serviceName =
     andThen (emit (HasResourceParamManager category serviceName)) (\<lambda>_.
     if hasResourceParamManager mgr category serviceName then
       andThen (emit (HasAnyParams category serviceName)) (\<lambda>_.
       if hasAnyParams (getResourceParamManager mgr category serviceName) then
         andThen (liftE (getProp (JObject amplifyMeta) category)) (\<lambda>categoryMeta.
         andThen (liftE (getProp categoryMeta serviceName)) (\<lambda>resourceMeta.
         andThen (emit (GetAllParams category serviceName)) (\<lambda>_.
         andThen (liftE (objectAssign resourceMeta
                    (getAllParams (getResourceParamManager mgr category serviceName))))
           (\<lambda>assigned. succeed (putResource amplifyMeta category serviceName assigned)))))
       else succeed amplifyMeta)
     else succeed amplifyMeta)"

text \<open>Lines 26-37: the fresh meta, the provider entry from the team provider
  info, and, unless \<open>restoreBackend\<close> is set, the merges and the write.\<close>

definition freshMeta :: "jv \<Rightarrow> string \<Rightarrow> obj" where
  "freshMeta teamProviderInfo currentEnv =
     [(''providers'',
       JObject (setProp [] ''awscloudformation''
         (optChain (optChain teamProviderInfo currentEnv) ''awscloudformation'')))]"

definition mergeConfig :: "world \<Rightarrow> string \<Rightarrow> obj action" where
  "mergeConfig w currentEnv =
     andThen getCtx (\<lambda>c0. let path = projectPath (exeInfo c0) in
     andThen (call (GetTeamProviderInfo path) (\<lambda>c. stateManager_getTeamProviderInfo w c path))
       (\<lambda>teamProviderInfo. let amplifyMeta = freshMeta teamProviderInfo currentEnv in
     andThen (call (EnsureEnvParamManager currentEnv) (\<lambda>c. ensureEnvParamManager w c currentEnv))
       (\<lambda>envParamManager.
     andThen getCtx (\<lambda>c.
     if \<not> restoreBackend (exeInfo c) then
       andThen (mergeBackendConfigIntoAmplifyMeta w path amplifyMeta) (\<lambda>merged.
       andThen (mergeCategoryEnvParamsIntoAmplifyMeta envParamManager merged
                  ''hosting'' ''ElasticContainer'') (\<lambda>merged'.
       andThen (setMeta path merged') (\<lambda>_. succeed merged')))
     else succeed amplifyMeta))))"

subsection \<open>Resolving the plugin hooks (lines 39-84)\<close>

definition resolutionHint :: string where
  "resolutionHint = ''Review the error message and stack trace for additional information.''"

definition importCategoryPluginAndQueueInitEnvTask ::
    "world \<Rightarrow> task list \<Rightarrow> pluginInfo \<Rightarrow> string \<Rightarrow> task list action" where
  "importCategoryPluginAndQueueInitEnvTask w categoryInitializationTasks pluginInfo category =
     tryCatch
       (andThen (call (Import (Some (packageLocation pluginInfo)))
                   (\<lambda>c. importModule w c (Some (packageLocation pluginInfo)))) (\<lambda>m.
        case initEnv m of
          Some hook \<Rightarrow> succeed (categoryInitializationTasks @ [CategoryInitEnvTask hook])
        | None \<Rightarrow> succeed categoryInitializationTasks))
       (\<lambda>e. throwE (amplifyFaultWithTroubleshootingLink ''PluginNotLoadedFault''
                (''Could not load plugin for category '' @ category @ ''.'')
                (Some (messageOf e)) resolutionHint e))"

fun queuePlugins :: "world \<Rightarrow> string \<Rightarrow> pluginInfo list \<Rightarrow> task list \<Rightarrow> task list action" where
  "queuePlugins w category [] tasks = succeed tasks"
| "queuePlugins w category (pluginInfo # rest) tasks =
     andThen (importCategoryPluginAndQueueInitEnvTask w tasks pluginInfo category)
       (\<lambda>tasks'. queuePlugins w category rest tasks')"

fun queueCategories ::
    "world \<Rightarrow> (string \<times> pluginInfo list) list \<Rightarrow> string list \<Rightarrow> task list \<Rightarrow> task list action" where
  "queueCategories w categoryPluginInfoList [] tasks = succeed tasks"
| "queueCategories w categoryPluginInfoList (category # rest) tasks =
     (case map_of categoryPluginInfoList category of
        None \<Rightarrow> throwE (typeError ''categoryPluginInfoList[category] is not iterable'')
      | Some pluginInfos \<Rightarrow>
          andThen (queuePlugins w category pluginInfos tasks)
            (\<lambda>tasks'. queueCategories w categoryPluginInfoList rest tasks'))"

definition availableCategories :: "(string \<times> pluginInfo list) list \<Rightarrow> string list \<Rightarrow> string list" where
  "availableCategories categoryPluginInfoList initializedCategories =
     filter (\<lambda>key. key \<in> set initializedCategories) (map fst categoryPluginInfoList)"

definition resolveCategoryTasks ::
    "world \<Rightarrow> (string \<times> pluginInfo list) list \<Rightarrow> string list \<Rightarrow> task list action" where
  "resolveCategoryTasks w categoryPluginInfoList initializedCategories =
     queueCategories w categoryPluginInfoList
       (availableCategories categoryPluginInfoList initializedCategories) []"

definition queueCategoryTasks :: "world \<Rightarrow> task list action" where
  "queueCategoryTasks w =
     andThen getMeta (\<lambda>meta. let initializedCategories = map fst meta in
     andThen (call GetAllCategoryPluginInfo (amplify_getAllCategoryPluginInfo w))
       (\<lambda>categoryPluginInfoList.
     resolveCategoryTasks w categoryPluginInfoList initializedCategories))"

fun queueProviderInit ::
    "world \<Rightarrow> (string \<times> string) list \<Rightarrow> obj \<Rightarrow> string list \<Rightarrow> task list \<Rightarrow> task list action" where
  "queueProviderInit w providerPlugins amplifyMeta [] tasks = succeed tasks"
| "queueProviderInit w providerPlugins amplifyMeta (provider # rest) tasks =
     andThen
       (tryCatch
          (andThen (call (Import (map_of providerPlugins provider))
                      (\<lambda>c. importModule w c (map_of providerPlugins provider)))
             (\<lambda>providerModule.
                succeed (tasks @ [ProviderInitEnvTask providerModule amplifyMeta provider])))
          (\<lambda>e. throwE (amplifyFaultWithTroubleshootingLink ''PluginNotLoadedFault''
                   (''Could not load plugin for provider '' @ provider @ ''.'')
                   (Some (messageOf e)) resolutionHint e)))
       (\<lambda>tasks'. queueProviderInit w providerPlugins amplifyMeta rest tasks')"

subsection \<open>Running the tasks\<close>

definition invokeHook :: "world \<Rightarrow> hookId \<Rightarrow> jv list \<Rightarrow> unit action" where
  "invokeHook w hook args =
     (\<lambda>(c, tr). case runHook w hook args c of (r, c') \<Rightarrow> (r, (c', tr @ [HookInvoked hook args])))"

text \<open>Calling a queued closure. The arguments are evaluated before the call,
  and calling a hook the module does not have is a \<open>TypeError\<close>.\<close>

fun runTask :: "world \<Rightarrow> task \<Rightarrow> unit action" where
  "runTask w (CategoryInitEnvTask hook) = invokeHook w hook []"
| "runTask w (ProviderInitEnvTask providerModule amplifyMeta provider) =
     andThen (liftE (getProp (JObject amplifyMeta) ''providers'')) (\<lambda>providersMeta.
     andThen (liftE (getProp providersMeta provider)) (\<lambda>providerMeta.
     case initEnv providerModule of
       None \<Rightarrow> throwE (typeError ''providerModule.initEnv is not a function'')
     | Some hook \<Rightarrow> invokeHook w hook [providerMeta]))"
| "runTask w (ProviderPushTask providerModule resourceDefinition) =
     (case pushResources providerModule of
        None \<Rightarrow> throwE (typeError ''providerModule.pushResources is not a function'')
      | Some hook \<Rightarrow> invokeHook w hook [resourceDefinition])"

text \<open>Modelled from the spec: \<open>sequential\<close> (the package promise-sequential, not
  among the sources) as the spec's SequentialTaskExecutor: the tasks run
  strictly in list order, one at a time; the first failure stops the run and
  is the failure of the whole; the empty list succeeds.\<close>

fun sequential :: "world \<Rightarrow> task list \<Rightarrow> unit action" where
  "sequential w [] = succeed ()"
| "sequential w (t # ts) =
     andThen (emit (TaskStarted t)) (\<lambda>_.
     andThen (runTask w t) (\<lambda>_. sequential w ts))"

subsection \<open>The phases of \<open>initializeEnv\<close> (lines 86-145)\<close>

definition initPlatform :: "world \<Rightarrow> string \<Rightarrow> task list \<Rightarrow> unit action" where
  "initPlatform w currentEnv initializationTasks =
     tryFinally
       (tryCatch
          (andThen (emit (StartCodePathTimer INIT_ENV_PLATFORM)) (\<lambda>_.
           sequential w initializationTasks))
          (\<lambda>e. throwE (amplifyFaultWithTroubleshootingLink ''ProjectInitFault''
                   (''Could not initialize platform for '' @ [CHR 0x27] @ currentEnv @ [CHR 0x27] @ '': '' @ messageOf e)
                   None resolutionHint e)))
       (emit (StopCodePathTimer INIT_ENV_PLATFORM))"

definition refreshProjectDetails :: "world \<Rightarrow> unit action" where
  "refreshProjectDetails w =
     andThen (call GetProjectDetails (amplify_getProjectDetails w)) (\<lambda>projectDetails.
     modifyCtx (\<lambda>c. c\<lparr>exeInfo := projectDetails (exeInfo c)\<rparr>))"

definition initCategories :: "world \<Rightarrow> string \<Rightarrow> task list \<Rightarrow> unit action" where
  "initCategories w currentEnv categoryInitializationTasks =
     tryFinally
       (tryCatch
          (andThen (emit (StartCodePathTimer INIT_ENV_CATEGORIES)) (\<lambda>_.
           sequential w categoryInitializationTasks))
          (\<lambda>e. throwE (amplifyFaultWithTroubleshootingLink ''ProjectInitFault''
                   (''Could not initialize categories for '' @ [CHR 0x27] @ currentEnv @ [CHR 0x27] @ '': '' @ messageOf e)
                   None resolutionHint e)))
       (emit (StopCodePathTimer INIT_ENV_CATEGORIES))"

definition pushQuestion :: string where
  "pushQuestion = ''Do you want to push your resources to the cloud for your environment?''"

definition decidePush :: "world \<Rightarrow> unit action" where
  "decidePush w =
     andThen getCtx (\<lambda>c.
     if forcePush (exeInfo c) = None then
       andThen (call (ConfirmPrompt pushQuestion) (\<lambda>c. amplify_confirmPrompt w c pushQuestion))
         (\<lambda>answer. modifyCtx (\<lambda>c. c\<lparr>exeInfo := (exeInfo c)\<lparr>forcePush := Some answer\<rparr>\<rparr>))
     else succeed ())"

fun queuePushTasks ::
    "world \<Rightarrow> (string \<times> string) list \<Rightarrow> string list \<Rightarrow> task list \<Rightarrow> task list action" where
  "queuePushTasks w providerPlugins [] tasks = succeed tasks"
| "queuePushTasks w providerPlugins (provider # rest) tasks =
     andThen (call (Import (map_of providerPlugins provider))
                (\<lambda>c. importModule w c (map_of providerPlugins provider))) (\<lambda>providerModule.
     andThen (call (GetResourceStatus provider) (\<lambda>c. amplify_getResourceStatus w c provider))
       (\<lambda>resourceDefinition.
     queuePushTasks w providerPlugins rest
       (tasks @ [ProviderPushTask providerModule resourceDefinition])))"

definition pushPhase :: "world \<Rightarrow> (string \<times> string) list \<Rightarrow> unit action" where
  "pushPhase w providerPlugins =
     andThen getCtx (\<lambda>c.
     if forcePush (exeInfo c) = Some True then
       andThen (queuePushTasks w providerPlugins (providers (exeInfo c)) [])
         (\<lambda>providerPushTasks. sequential w providerPushTasks)
     else succeed ())"

subsection \<open>\<open>initializeEnv\<close>\<close>

definition startMessage :: "bool \<Rightarrow> string \<Rightarrow> string" where
  "startMessage isPulling currentEnv =
     (if isPulling
      then ''Fetching updates to backend environment: '' @ currentEnv @ '' from the cloud.''
      else ''Initializing your environment: '' @ currentEnv)"

definition succeedMessage :: "bool \<Rightarrow> string \<Rightarrow> string" where
  "succeedMessage isPulling currentEnv =
     (if isPulling
      then ''Successfully pulled backend environment '' @ currentEnv @ '' from the cloud.''
      else ''Initialized provider successfully.'')"

text \<open>Lines 24-88: merge, resolve the category and provider hooks, start the spinner.\<close>

definition resolveSteps ::
    "world \<Rightarrow> string \<Rightarrow> bool \<Rightarrow> (task list \<times> (string \<times> string) list \<times> task list) action" where
  "resolveSteps w currentEnv isPulling =
     andThen (mergeConfig w currentEnv) (\<lambda>amplifyMeta.
     andThen (queueCategoryTasks w) (\<lambda>categoryInitializationTasks.
     andThen (call GetProviderPlugins (getProviderPlugins w)) (\<lambda>providerPlugins.
     andThen getCtx (\<lambda>c.
     andThen (queueProviderInit w providerPlugins amplifyMeta (providers (exeInfo c)) [])
       (\<lambda>initializationTasks.
     andThen (emit (SpinnerStart (startMessage isPulling currentEnv))) (\<lambda>_.
     succeed (categoryInitializationTasks, providerPlugins, initializationTasks)))))))"

text \<open>Lines 24-129: everything up to and including the push decision.\<close>

definition untilPushDecision ::
    "world \<Rightarrow> string \<Rightarrow> bool \<Rightarrow> (string \<times> string) list action" where
  "untilPushDecision w currentEnv isPulling =
     andThen (resolveSteps w currentEnv isPulling)
       (\<lambda>(categoryInitializationTasks, providerPlugins, initializationTasks).
     andThen (initPlatform w currentEnv initializationTasks) (\<lambda>_.
     andThen (emit (SpinnerSucceed (succeedMessage isPulling currentEnv))) (\<lambda>_.
     andThen (refreshProjectDetails w) (\<lambda>_.
     andThen (initCategories w currentEnv categoryInitializationTasks) (\<lambda>_.
     andThen (decidePush w) (\<lambda>_.
     succeed providerPlugins))))))"

text \<open>Lines 24-140: up to and including the push.\<close>

definition untilOutputs :: "world \<Rightarrow> string \<Rightarrow> bool \<Rightarrow> unit action" where
  "untilOutputs w currentEnv isPulling =
     andThen (untilPushDecision w currentEnv isPulling) (\<lambda>providerPlugins.
     pushPhase w providerPlugins)"

text \<open>Lines 24-145: the body of the outer \<open>try\<close>.\<close>

definition tryBlock :: "world \<Rightarrow> jv \<Rightarrow> string \<Rightarrow> bool \<Rightarrow> unit action" where
  "tryBlock w currentAmplifyMeta currentEnv isPulling =
     andThen (untilOutputs w currentEnv isPulling) (\<lambda>_.
     andThen (call (OnCategoryOutputsChange currentAmplifyMeta)
                (\<lambda>c. amplify_onCategoryOutputsChange w c currentAmplifyMeta)) (\<lambda>_.
     emit (PrinterSuccess (if isPulling then [] else ''Initialized your environment successfully.''))))"

definition failMessage :: string where
  "failMessage = ''There was an error initializing your environment.''"

definition isPullCommand :: "ctx \<Rightarrow> bool" where
  "isPullCommand c =
     (command c = ''pull'' \<or>
      (command c = ''env'' \<and> (case subCommands c of [] \<Rightarrow> False | sub # _ \<Rightarrow> sub = ''pull'')))"

text \<open>\<open>initializeEnv(context, currentAmplifyMeta)\<close>; the second argument is
  given by the caller or is the default the caller's side computes.\<close>

definition initializeEnv :: "world \<Rightarrow> jv \<Rightarrow> unit action" where
  "initializeEnv w currentAmplifyMeta =
     (\<lambda>s. let currentEnv = envName (exeInfo (fst s));
               isPulling = isPullCommand (fst s)
           in tryCatch (tryBlock w currentAmplifyMeta currentEnv isPulling)
                (\<lambda>e. andThen (emit (SpinnerFail failMessage)) (\<lambda>_. throwE e)) s)"

subsection \<open>Reading a trace\<close>

text \<open>\<open>adds Q m\<close>: whatever \<open>m\<close> does, it only appends to the trace, and only
  events that satisfy \<open>Q\<close>.\<close>

definition adds :: "(event \<Rightarrow> bool) \<Rightarrow> 'a action \<Rightarrow> bool" where
  "adds Q m = (\<forall>c tr. \<exists>ext. snd (snd (m (c, tr))) = tr @ ext \<and> list_all Q ext)"

text \<open>The events of lines 24-88 (merge, resolution, spinner start), and the
  events that only come after the push (lines 143-148).\<close>

fun isResolveEvent :: "event \<Rightarrow> bool" where
  "isResolveEvent (GetTeamProviderInfo p) = True"
| "isResolveEvent (EnsureEnvParamManager e) = True"
| "isResolveEvent (GetBackendConfig p) = True"
| "isResolveEvent (HasResourceParamManager c s) = True"
| "isResolveEvent (HasAnyParams c s) = True"
| "isResolveEvent (GetAllParams c s) = True"
| "isResolveEvent (SetMeta p m) = True"
| "isResolveEvent GetMeta = True"
| "isResolveEvent GetAllCategoryPluginInfo = True"
| "isResolveEvent (Import l) = True"
| "isResolveEvent GetProviderPlugins = True"
| "isResolveEvent (SpinnerStart m) = True"
| "isResolveEvent ev = False"

fun isTailEvent :: "event \<Rightarrow> bool" where
  "isTailEvent (OnCategoryOutputsChange m) = True"
| "isTailEvent (PrinterSuccess m) = True"
| "isTailEvent (SpinnerFail m) = True"
| "isTailEvent ev = False"

text \<open>The tasks the executor started, in the order it started them.\<close>

fun startedTasks :: "event list \<Rightarrow> task list" where
  "startedTasks [] = []"
| "startedTasks (TaskStarted t # evs) = t # startedTasks evs"
| "startedTasks (ev # evs) = startedTasks evs"

text \<open>Events of a task run: the executor starting a task, a hook being called.\<close>

fun isTaskEvent :: "event \<Rightarrow> bool" where
  "isTaskEvent (TaskStarted t) = True"
| "isTaskEvent (HookInvoked h args) = True"
| "isTaskEvent ev = False"


fun isOutputsChange :: "event \<Rightarrow> bool" where
  "isOutputsChange (OnCategoryOutputsChange m) = True"
| "isOutputsChange ev = False"

fun spinnerStep :: "bool \<Rightarrow> event \<Rightarrow> bool" where
  "spinnerStep spinning (SpinnerStart m) = True"
| "spinnerStep spinning (SpinnerSucceed m) = False"
| "spinnerStep spinning (SpinnerFail m) = False"
| "spinnerStep spinning ev = spinning"

definition spinning :: "event list \<Rightarrow> bool" where
  "spinning tr = foldl spinnerStep False tr"

text \<open>The module an \<open>import\<close> yields, if it loads.\<close>

definition loadedModule :: "world \<Rightarrow> ctx \<Rightarrow> string option \<Rightarrow> pmodule option" where
  "loadedModule w c location =
     (case importModule w c location of Inl e \<Rightarrow> None | Inr m \<Rightarrow> Some m)"

text \<open>
  The category task list in the spec's words: going through the category
  plugin info list in its order, a category that is in the initialized set
  gives one task for each of its plugins whose module has an \<open>initEnv\<close> hook,
  in the plugins' order; any other category gives none.
  \<open>consideredPlugins\<close> are the plugins of the categories in the set.
\<close>

definition pluginTasks :: "world \<Rightarrow> ctx \<Rightarrow> pluginInfo list \<Rightarrow> task list" where
  "pluginTasks w c pluginInfos =
     concat (map (\<lambda>pluginInfo.
        case loadedModule w c (Some (packageLocation pluginInfo)) of
          Some m \<Rightarrow> (case initEnv m of Some hook \<Rightarrow> [CategoryInitEnvTask hook] | None \<Rightarrow> [])
        | None \<Rightarrow> []) pluginInfos)"

definition expectedCategoryTasks ::
    "world \<Rightarrow> ctx \<Rightarrow> (string \<times> pluginInfo list) list \<Rightarrow> string list \<Rightarrow> task list" where
  "expectedCategoryTasks w c categoryPluginInfoList initializedCategorySet =
     concat (map (\<lambda>(category, pluginInfos).
        if category \<in> set initializedCategorySet then pluginTasks w c pluginInfos else [])
       categoryPluginInfoList)"

definition consideredPlugins ::
    "(string \<times> pluginInfo list) list \<Rightarrow> string list \<Rightarrow> pluginInfo list" where
  "consideredPlugins categoryPluginInfoList initializedCategorySet =
     concat (map (\<lambda>(category, pluginInfos).
        if category \<in> set initializedCategorySet then pluginInfos else [])
       categoryPluginInfoList)"

definition importOf :: "pluginInfo \<Rightarrow> event" where
  "importOf pluginInfo = Import (Some (packageLocation pluginInfo))"

text \<open>What \<open>mergeCategoryEnvParamsIntoAmplifyMeta\<close> leaves in \<open>amplifyMeta\<close>, or the error it throws.\<close>

definition mergeResult :: "envParamManager \<Rightarrow> obj \<Rightarrow> string \<Rightarrow> string \<Rightarrow> error + obj" where
  "mergeResult mgr meta category serviceName =
     (if hasResourceParamManager mgr category serviceName
         \<and> hasAnyParams (getResourceParamManager mgr category serviceName)
      then (case getProp (JObject meta) category of Inl e \<Rightarrow> Inl e | Inr categoryMeta \<Rightarrow>
             (case getProp categoryMeta serviceName of Inl e \<Rightarrow> Inl e | Inr resourceMeta \<Rightarrow>
               (case objectAssign resourceMeta (getAllParams (getResourceParamManager mgr category serviceName)) of
                  Inl e \<Rightarrow> Inl e
                | Inr assigned \<Rightarrow> Inr (putResource meta category serviceName assigned))))
      else Inr meta)"

text \<open>\<open>meta[category]?.[serviceName]\<close>, the entry of a resource.\<close>

definition resourceOf :: "obj \<Rightarrow> string \<Rightarrow> string \<Rightarrow> jv" where
  "resourceOf meta category serviceName = optChain (optChain (JObject meta) category) serviceName"

text \<open>The fault thrown when a provider's plugin does not load (lines 77-82).\<close>

definition providerLoadFault :: "string \<Rightarrow> error \<Rightarrow> error" where
  "providerLoadFault provider e =
     AmplifyFault ''PluginNotLoadedFault'' (''Could not load plugin for provider '' @ provider @ ''.'')
       (Some (messageOf e)) resolutionHint e"

text \<open>Two parameter managers that record the same for the pair
  \<open>(hosting, ElasticContainer)\<close>, whatever they record for other pairs.\<close>

definition sameHostingContainer :: "envParamManager \<Rightarrow> envParamManager \<Rightarrow> bool" where
  "sameHostingContainer mgr mgr' =
     (hasResourceParamManager mgr ''hosting'' ''ElasticContainer''
        = hasResourceParamManager mgr' ''hosting'' ''ElasticContainer''
      \<and> getResourceParamManager mgr ''hosting'' ''ElasticContainer''
        = getResourceParamManager mgr' ''hosting'' ''ElasticContainer'')"

text \<open>\<open>keepsCtx m\<close>: \<open>m\<close> leaves the context, the stored meta included, as it found it.\<close>

definition keepsCtx :: "'a action \<Rightarrow> bool" where
  "keepsCtx m = (\<forall>c tr. fst (snd (m (c, tr))) = c)"

subsection \<open>A project to run: environment dev, one provider, the category auth\<close>

text \<open>
  The project of the spec's scenarios: environment \<open>dev\<close>, the provider
  \<open>awscloudformation\<close>, the category \<open>auth\<close> with a plugin that has an
  \<open>initEnv\<close> hook and one that has none, and a category \<open>storage\<close> that was
  never initialized and whose plugin does not load. Hooks succeed, the push
  is confirmed. The variants change one collaborator each.
\<close>

definition devTeamProviderInfo :: jv where
  "devTeamProviderInfo =
     JObject [(''dev'', JObject [(''awscloudformation'', JObject [(''Region'', JStr ''us-east-1'')])])]"

definition noParams :: envParamManager where
  "noParams = \<lparr>hasResourceParamManager = (\<lambda>category service. False),
               getResourceParamManager = (\<lambda>category service. \<lparr>hasAnyParams = False, getAllParams = []\<rparr>)\<rparr>"

definition authModule :: pmodule where
  "authModule = \<lparr>initEnv = Some ''auth.initEnv'', pushResources = None\<rparr>"

definition codegenModule :: pmodule where
  "codegenModule = \<lparr>initEnv = None, pushResources = None\<rparr>"

definition awsModule :: pmodule where
  "awsModule = \<lparr>initEnv = Some ''aws.initEnv'', pushResources = Some ''aws.pushResources''\<rparr>"

definition devWorld :: world where
  "devWorld =
     \<lparr>stateManager_getTeamProviderInfo = (\<lambda>c path. Inr devTeamProviderInfo),
      ensureEnvParamManager = (\<lambda>c env. Inr noParams),
      stateManager_getBackendConfig =
        (\<lambda>c path. Inr [(''auth'', JObject [(''userPool'', JObject [(''service'', JStr ''Cognito'')])])]),
      amplify_getAllCategoryPluginInfo =
        (\<lambda>c. Inr [(''auth'', [\<lparr>packageLocation = ''plugins/auth''\<rparr>,
                             \<lparr>packageLocation = ''plugins/codegen''\<rparr>]),
                  (''storage'', [\<lparr>packageLocation = ''plugins/storage''\<rparr>])]),
      importModule =
        (\<lambda>c location.
           if location = Some ''plugins/auth'' then Inr authModule
           else if location = Some ''plugins/codegen'' then Inr codegenModule
           else if location = Some ''plugins/aws'' then Inr awsModule
           else Inl (JsError ''Error'' ''Cannot find module'')),
      getProviderPlugins = (\<lambda>c. Inr [(''awscloudformation'', ''plugins/aws'')]),
      amplify_getProjectDetails = (\<lambda>c. Inr (\<lambda>info. info)),
      amplify_confirmPrompt = (\<lambda>c question. Inr True),
      amplify_getResourceStatus = (\<lambda>c provider. Inr (JObject [(''resourcesToBeCreated'', JStr ''none'')])),
      amplify_onCategoryOutputsChange = (\<lambda>c meta. Inr ()),
      runHook = (\<lambda>hook args c. (Inr (), c))\<rparr>"

definition failingHook :: "hookId \<Rightarrow> world" where
  "failingHook bad =
     devWorld\<lparr>runHook := (\<lambda>hook args c.
       if hook = bad then (Inl (JsError ''Error'' ''hook failed''), c) else (Inr (), c))\<rparr>"

definition devCtx :: ctx where
  "devCtx =
     \<lparr>exeInfo = \<lparr>envName = ''dev'', projectPath = ''/p'', restoreBackend = False,
                 providers = [''awscloudformation''], forcePush = None\<rparr>,
      command = ''init'', subCommands = [],
      metaFile = Inl (JsError ''Error'' ''File does not exist'')\<rparr>"

definition hostingParams :: envParamManager where
  "hostingParams =
     \<lparr>hasResourceParamManager = (\<lambda>category service. category = ''hosting'' \<and> service = ''ElasticContainer''),
      getResourceParamManager = (\<lambda>category service.
         \<lparr>hasAnyParams = True, getAllParams = [(''domain'', JStr ''example.com'')]\<rparr>)\<rparr>"

definition storedMeta :: obj where
  "storedMeta =
     [(''providers'', JObject [(''awscloudformation'', JObject [(''Region'', JStr ''eu-west-1'')])]),
      (''auth'', JObject [])]"

definition restoreCtx :: ctx where
  "restoreCtx = devCtx\<lparr>exeInfo := (exeInfo devCtx)\<lparr>restoreBackend := True\<rparr>, metaFile := Inr storedMeta\<rparr>"

definition missingProviderPlugin :: world where
  "missingProviderPlugin =
     devWorld\<lparr>getProviderPlugins := (\<lambda>c. Inr [(''awscloudformation'', ''plugins/missing'')])\<rparr>"

definition declinedPush :: world where
  "declinedPush = devWorld\<lparr>amplify_confirmPrompt := (\<lambda>c question. Inr False)\<rparr>"

text \<open>The states and traces this project goes through, for the runs below.\<close>

definition devMeta :: obj where
  "devMeta =
     [(''providers'', JObject [(''awscloudformation'', JObject [(''Region'', JStr ''us-east-1'')])]),
      (''auth'', JObject [(''userPool'', JObject [(''service'', JStr ''Cognito'')])])]"

definition devResolved :: ctx where
  "devResolved = devCtx\<lparr>metaFile := Inr devMeta\<rparr>"

definition devCategoryTrace :: "event list" where
  "devCategoryTrace =
     [GetTeamProviderInfo ''/p'', EnsureEnvParamManager ''dev'', GetBackendConfig ''/p'',
      HasResourceParamManager ''hosting'' ''ElasticContainer'', SetMeta ''/p'' devMeta,
      GetMeta, GetAllCategoryPluginInfo, Import (Some ''plugins/auth''),
      Import (Some ''plugins/codegen'')]"

definition devResolveTrace :: "event list" where
  "devResolveTrace =
     devCategoryTrace @ [GetProviderPlugins, Import (Some ''plugins/aws''),
      SpinnerStart ''Initializing your environment: dev'']"

definition devProviderTask :: task where
  "devProviderTask = ProviderInitEnvTask awsModule devMeta ''awscloudformation''"

definition devPushTask :: task where
  "devPushTask = ProviderPushTask awsModule (JObject [(''resourcesToBeCreated'', JStr ''none'')])"

definition devPlatformTrace :: "event list" where
  "devPlatformTrace =
     devResolveTrace @ [StartCodePathTimer INIT_ENV_PLATFORM, TaskStarted devProviderTask,
       HookInvoked ''aws.initEnv'' [JObject [(''Region'', JStr ''us-east-1'')]],
       StopCodePathTimer INIT_ENV_PLATFORM]"

definition devDecisionTrace :: "event list" where
  "devDecisionTrace =
     devPlatformTrace @ [SpinnerSucceed ''Initialized provider successfully.'', GetProjectDetails,
       StartCodePathTimer INIT_ENV_CATEGORIES, TaskStarted (CategoryInitEnvTask ''auth.initEnv''),
       HookInvoked ''auth.initEnv'' [], StopCodePathTimer INIT_ENV_CATEGORIES,
       ConfirmPrompt pushQuestion]"

definition devDecided :: "bool \<Rightarrow> ctx" where
  "devDecided answer = devResolved\<lparr>exeInfo := (exeInfo devResolved)\<lparr>forcePush := Some answer\<rparr>\<rparr>"

definition devPushTrace :: "event list" where
  "devPushTrace =
     devDecisionTrace @ [Import (Some ''plugins/aws''), GetResourceStatus ''awscloudformation'',
       TaskStarted devPushTask,
       HookInvoked ''aws.pushResources'' [JObject [(''resourcesToBeCreated'', JStr ''none'')]]]"

definition hostingMeta :: obj where
  "hostingMeta =
     [(''providers'', JObject []),
      (''hosting'', JObject
         [(''S3AndCloudFront'', JObject [(''service'', JStr ''S3AndCloudFront'')]),
          (''ElasticContainer'', JObject [(''domain'', JStr ''old.example.com''), (''port'', JStr ''80'')])])]"


definition authParams :: envParamManager where
  "authParams =
     \<lparr>hasResourceParamManager = (\<lambda>category service. category = ''auth'' \<and> service = ''userPool''),
      getResourceParamManager = (\<lambda>category service.
         if category = ''auth'' \<and> service = ''userPool''
         then \<lparr>hasAnyParams = True, getAllParams = [(''service'', JStr ''Overridden'')]\<rparr>
         else \<lparr>hasAnyParams = False, getAllParams = []\<rparr>)\<rparr>"

section \<open>Basic facts\<close>

lemma andThen_succeed: "andThen (succeed x) f = f x"
  by (simp add: andThen_def succeed_def)

lemma andThen_assoc: "andThen (andThen m f) g = andThen m (\<lambda>x. andThen (f x) g)"
  by (auto simp: andThen_def fun_eq_iff split: prod.splits sum.splits)

lemma sequential_append:
  "sequential w (xs @ ys) = andThen (sequential w xs) (\<lambda>_. sequential w ys)"
  by (induction xs) (simp_all add: andThen_succeed andThen_assoc)

lemma addsI:
  "(\<And>c tr. \<exists>ext. snd (snd (m (c, tr))) = tr @ ext \<and> list_all Q ext) \<Longrightarrow> adds Q m"
  by (simp add: adds_def)

lemma addsD:
  "adds Q m \<Longrightarrow> m (c, tr) = (r, (c', tr')) \<Longrightarrow> \<exists>ext. tr' = tr @ ext \<and> list_all Q ext"
  unfolding adds_def by (metis snd_conv)

lemma adds_succeed: "adds Q (succeed x)"
  by (simp add: adds_def succeed_def)

lemma adds_throwE: "adds Q (throwE e)"
  by (simp add: adds_def throwE_def)

lemma adds_liftE: "adds Q (liftE r)"
  by (simp add: adds_def liftE_def)

lemma adds_getCtx: "adds Q getCtx"
  by (simp add: adds_def getCtx_def)

lemma adds_modifyCtx: "adds Q (modifyCtx f)"
  by (simp add: adds_def modifyCtx_def)

lemma adds_emit: "Q ev \<Longrightarrow> adds Q (emit ev)"
  by (simp add: adds_def emit_def)

lemma adds_call: "Q ev \<Longrightarrow> adds Q (call ev f)"
  by (simp add: adds_def call_def)

lemma adds_invokeHook: "Q (HookInvoked h args) \<Longrightarrow> adds Q (invokeHook w h args)"
  by (simp add: adds_def invokeHook_def split: prod.splits)

lemma adds_andThen:
  assumes "adds Q m" and "\<And>x. adds Q (f x)"
  shows "adds Q (andThen m f)"
proof (rule addsI)
  fix c tr
  obtain r c1 tr1 where m: "m (c, tr) = (r, (c1, tr1))" by (metis prod.exhaust)
  from addsD[OF assms(1) m] obtain e1 where e1: "tr1 = tr @ e1" "list_all Q e1" by blast
  show "\<exists>ext. snd (snd (andThen m f (c, tr))) = tr @ ext \<and> list_all Q ext"
  proof (cases r)
    case (Inl e)
    then show ?thesis using m e1 by (simp add: andThen_def)
  next
    case (Inr x)
    obtain r2 c2 tr2 where f: "f x (c1, tr1) = (r2, (c2, tr2))" by (metis prod.exhaust)
    from addsD[OF assms(2) f] obtain e2 where "tr2 = tr1 @ e2" "list_all Q e2" by blast
    then show ?thesis using m e1 Inr f by (simp add: andThen_def)
  qed
qed

lemma adds_tryCatch:
  assumes "adds Q m" and "\<And>e. adds Q (h e)"
  shows "adds Q (tryCatch m h)"
proof (rule addsI)
  fix c tr
  obtain r c1 tr1 where m: "m (c, tr) = (r, (c1, tr1))" by (metis prod.exhaust)
  from addsD[OF assms(1) m] obtain e1 where e1: "tr1 = tr @ e1" "list_all Q e1" by blast
  show "\<exists>ext. snd (snd (tryCatch m h (c, tr))) = tr @ ext \<and> list_all Q ext"
  proof (cases r)
    case (Inr x)
    then show ?thesis using m e1 by (simp add: tryCatch_def)
  next
    case (Inl e)
    obtain r2 c2 tr2 where f: "h e (c1, tr1) = (r2, (c2, tr2))" by (metis prod.exhaust)
    from addsD[OF assms(2) f] obtain e2 where "tr2 = tr1 @ e2" "list_all Q e2" by blast
    then show ?thesis using m e1 Inl f by (simp add: tryCatch_def)
  qed
qed

lemma adds_tryFinally:
  assumes "adds Q m" and "adds Q fin"
  shows "adds Q (tryFinally m fin)"
proof (rule addsI)
  fix c tr
  obtain r c1 tr1 where m: "m (c, tr) = (r, (c1, tr1))" by (metis prod.exhaust)
  from addsD[OF assms(1) m] obtain e1 where e1: "tr1 = tr @ e1" "list_all Q e1" by blast
  obtain r2 c2 tr2 where f: "fin (c1, tr1) = (r2, (c2, tr2))" by (metis prod.exhaust)
  from addsD[OF assms(2) f] obtain e2 where "tr2 = tr1 @ e2" "list_all Q e2" by blast
  then show "\<exists>ext. snd (snd (tryFinally m fin (c, tr))) = tr @ ext \<and> list_all Q ext"
    using m e1 f by (cases r2) (simp_all add: tryFinally_def)
qed

lemmas adds_intros = adds_succeed adds_throwE adds_liftE adds_getCtx adds_modifyCtx
  adds_emit adds_call adds_invokeHook adds_andThen adds_tryCatch adds_tryFinally

lemma adds_mergeCategoryEnvParams:
  "(\<And>ev. isResolveEvent ev \<Longrightarrow> Q ev) \<Longrightarrow>
   adds Q (mergeCategoryEnvParamsIntoAmplifyMeta mgr meta category serviceName)"
  unfolding mergeCategoryEnvParamsIntoAmplifyMeta_def
  by (auto intro!: adds_intros)

lemma adds_mergeConfig:
  "(\<And>ev. isResolveEvent ev \<Longrightarrow> Q ev) \<Longrightarrow> adds Q (mergeConfig w env)"
  unfolding mergeConfig_def mergeBackendConfigIntoAmplifyMeta_def setMeta_def Let_def
  by (auto intro!: adds_intros adds_mergeCategoryEnvParams)

lemma adds_queuePlugins:
  "(\<And>ev. isResolveEvent ev \<Longrightarrow> Q ev) \<Longrightarrow> adds Q (queuePlugins w category ps tasks)"
  by (induction ps arbitrary: tasks)
     (auto intro!: adds_intros simp: importCategoryPluginAndQueueInitEnvTask_def split: option.splits)

lemma adds_queueCategories:
  "(\<And>ev. isResolveEvent ev \<Longrightarrow> Q ev) \<Longrightarrow> adds Q (queueCategories w cpil cats tasks)"
  by (induction cats arbitrary: tasks)
     (auto intro!: adds_intros adds_queuePlugins split: option.splits)

lemma adds_queueCategoryTasks:
  "(\<And>ev. isResolveEvent ev \<Longrightarrow> Q ev) \<Longrightarrow> adds Q (queueCategoryTasks w)"
  unfolding queueCategoryTasks_def getMeta_def resolveCategoryTasks_def Let_def
  by (auto intro!: adds_intros adds_queueCategories)

lemma adds_queueProviderInit:
  "(\<And>ev. isResolveEvent ev \<Longrightarrow> Q ev) \<Longrightarrow> adds Q (queueProviderInit w pp meta ps tasks)"
  by (induction ps arbitrary: tasks) (auto intro!: adds_intros)

lemma adds_resolveSteps:
  "(\<And>ev. isResolveEvent ev \<Longrightarrow> Q ev) \<Longrightarrow> adds Q (resolveSteps w env p)"
  unfolding resolveSteps_def
  by (auto intro!: adds_intros adds_mergeConfig adds_queueCategoryTasks adds_queueProviderInit)

lemma adds_runTask:
  "(\<And>ev. \<not> isTailEvent ev \<Longrightarrow> Q ev) \<Longrightarrow> adds Q (runTask w t)"
  by (cases t) (auto intro!: adds_intros split: option.splits)

lemma adds_sequential:
  "(\<And>ev. \<not> isTailEvent ev \<Longrightarrow> Q ev) \<Longrightarrow> adds Q (sequential w ts)"
  by (induction ts) (auto intro!: adds_intros adds_runTask)

lemma adds_queuePushTasks:
  "(\<And>ev. \<not> isTailEvent ev \<Longrightarrow> Q ev) \<Longrightarrow> adds Q (queuePushTasks w pp ps tasks)"
  by (induction ps arbitrary: tasks) (auto intro!: adds_intros)

lemma resolve_not_tail: "isResolveEvent ev \<Longrightarrow> \<not> isTailEvent ev"
  by (cases ev) simp_all

lemma adds_untilPushDecision:
  "(\<And>ev. \<not> isTailEvent ev \<Longrightarrow> Q ev) \<Longrightarrow> adds Q (untilPushDecision w env p)"
  unfolding untilPushDecision_def initPlatform_def initCategories_def refreshProjectDetails_def
    decidePush_def
  by (auto intro!: adds_intros adds_resolveSteps adds_sequential simp: resolve_not_tail)

lemma adds_untilOutputs:
  "(\<And>ev. \<not> isTailEvent ev \<Longrightarrow> Q ev) \<Longrightarrow> adds Q (untilOutputs w env p)"
  unfolding untilOutputs_def pushPhase_def
  by (auto intro!: adds_intros adds_untilPushDecision adds_queuePushTasks adds_sequential)

lemma startedTasks_append: "startedTasks (xs @ ys) = startedTasks xs @ startedTasks ys"
  by (induction xs rule: startedTasks.induct) simp_all

lemma runTask_startedTasks:
  "runTask w t (c, tr) = (r, (c', tr')) \<Longrightarrow> startedTasks tr' = startedTasks tr"
  by (cases t)
     (auto simp: invokeHook_def andThen_def liftE_def throwE_def startedTasks_append
           split: prod.splits sum.splits option.splits)

lemma sequential_startedTasks:
  "sequential w ts (c, tr) = (Inr u, (c', tr')) \<Longrightarrow> startedTasks tr' = startedTasks tr @ ts"
proof (induction ts arbitrary: c tr)
  case Nil
  then show ?case by (simp add: succeed_def)
next
  case (Cons t ts)
  obtain r1 c1 tr1 where rt: "runTask w t (c, tr @ [TaskStarted t]) = (r1, (c1, tr1))"
    by (metis prod.exhaust)
  have st: "startedTasks tr1 = startedTasks tr @ [t]"
    using runTask_startedTasks[OF rt] by (simp add: startedTasks_append)
  from Cons.prems rt obtain u1 where "r1 = Inr u1"
    by (cases r1) (simp_all add: andThen_def emit_def)
  with Cons.prems rt have "sequential w ts (c1, tr1) = (Inr u, (c', tr'))"
    by (simp add: andThen_def emit_def)
  from Cons.IH[OF this] st show ?case by simp
qed

lemma mergeCategoryEnvParams_fst:
  "fst (mergeCategoryEnvParamsIntoAmplifyMeta mgr meta category serviceName s) =
     mergeResult mgr meta category serviceName"
  by (cases s)
     (auto simp: mergeCategoryEnvParamsIntoAmplifyMeta_def mergeResult_def andThen_def emit_def
        liftE_def succeed_def split: sum.splits)

lemma map_of_assignAll: "map_of (assignAll target source) = map_of target ++ map_of (rev source)"
proof (induction source arbitrary: target)
  case Nil
  then show ?case by (simp add: assignAll_def)
next
  case (Cons p source)
  obtain k v where p: "p = (k, v)" by (cases p)
  have "assignAll target (p # source) = assignAll (setProp target k v) source"
    by (simp add: assignAll_def p)
  then show ?case
    by (simp add: Cons.IH p setProp_def update_conv' map_add_upd_left fun_eq_iff map_add_def split: option.splits)
qed

lemma keys_assignAll_existing:
  "map fst (setProp kvs k v) = (if k \<in> set (map fst kvs) then map fst kvs else map fst kvs @ [k])"
  by (simp add: setProp_def update_keys)

lemma map_of_setProp: "map_of (setProp kvs k v) = (map_of kvs)(k \<mapsto> v)"
  by (simp add: setProp_def update_conv')

lemma putResource_other_category:
  "k \<noteq> category \<Longrightarrow> map_of (putResource meta category serviceName v) k = map_of meta k"
  by (auto simp: putResource_def map_of_setProp split: option.splits jv.splits)

lemma putResource_keys:
  "map fst (putResource meta category serviceName v) = map fst meta"
  by (auto simp: putResource_def keys_assignAll_existing split: option.splits jv.splits
           dest: map_of_SomeD intro: rev_image_eqI)

lemma mergeResult_frame:
  assumes "mergeResult mgr meta category serviceName = Inr meta'"
  shows "map fst meta' = map fst meta"
    and "k \<noteq> category \<Longrightarrow> map_of meta' k = map_of meta k"
    and "r \<noteq> serviceName \<Longrightarrow> resourceOf meta' category r = resourceOf meta category r"
proof -
  show "map fst meta' = map fst meta"
    using assms by (auto simp: mergeResult_def putResource_keys split: if_splits sum.splits)
  show "k \<noteq> category \<Longrightarrow> map_of meta' k = map_of meta k"
    using assms by (auto simp: mergeResult_def putResource_other_category split: if_splits sum.splits)
  show "r \<noteq> serviceName \<Longrightarrow> resourceOf meta' category r = resourceOf meta category r"
    using assms
    by (auto simp: mergeResult_def resourceOf_def putResource_def map_of_setProp
             split: if_splits sum.splits option.splits jv.splits)
qed

lemma queuePlugins_loaded:
  assumes "\<forall>p \<in> set ps. loadedModule w c (Some (packageLocation p)) \<noteq> None"
  shows "queuePlugins w category ps tasks (c, tr)
           = (Inr (tasks @ pluginTasks w c ps), (c, tr @ map importOf ps))"
  using assms
proof (induction ps arbitrary: tasks tr)
  case Nil
  then show ?case by (simp add: succeed_def pluginTasks_def)
next
  case (Cons p ps)
  from Cons.prems obtain m where m: "importModule w c (Some (packageLocation p)) = Inr m"
    by (auto simp: loadedModule_def split: sum.splits)
  have step: "importCategoryPluginAndQueueInitEnvTask w tasks p category (c, tr)
          = (Inr (tasks @ pluginTasks w c [p]), (c, tr @ [importOf p]))"
    using m
    by (simp add: importCategoryPluginAndQueueInitEnvTask_def tryCatch_def andThen_def call_def
          succeed_def pluginTasks_def loadedModule_def importOf_def split: option.splits)
  have "pluginTasks w c (p # ps) = pluginTasks w c [p] @ pluginTasks w c ps"
    by (simp add: pluginTasks_def)
  then show ?case using Cons.prems step
    by (simp add: andThen_def Cons.IH)
qed

lemma queueCategories_loaded:
  assumes "\<forall>category \<in> set cats. \<exists>ps. map_of cpil category = Some ps \<and>
             (\<forall>p \<in> set ps. loadedModule w c (Some (packageLocation p)) \<noteq> None)"
  shows "queueCategories w cpil cats tasks (c, tr)
           = (Inr (tasks @ concat (map (\<lambda>category. pluginTasks w c (the (map_of cpil category))) cats)),
              (c, tr @ concat (map (\<lambda>category. map importOf (the (map_of cpil category))) cats)))"
  using assms
proof (induction cats arbitrary: tasks tr)
  case Nil
  then show ?case by (simp add: succeed_def)
next
  case (Cons category cats)
  from Cons.prems obtain ps where ps: "map_of cpil category = Some ps"
    "\<forall>p \<in> set ps. loadedModule w c (Some (packageLocation p)) \<noteq> None" by auto
  show ?case using Cons.prems ps
    by (simp add: andThen_def queuePlugins_loaded[OF ps(2)] Cons.IH)
qed

lemma concat_over_available:
  assumes "distinct (map fst cpil)"
  shows "concat (map (\<lambda>category. f (the (map_of cpil category)))
           (filter (\<lambda>key. key \<in> S) (map fst cpil)))
         = concat (map (\<lambda>(category, pluginInfos). if category \<in> S then f pluginInfos else []) cpil)"
proof -
  have "\<And>xs. set xs \<subseteq> set cpil \<Longrightarrow>
        concat (map (\<lambda>category. f (the (map_of cpil category))) (filter (\<lambda>key. key \<in> S) (map fst xs)))
         = concat (map (\<lambda>(category, pluginInfos). if category \<in> S then f pluginInfos else []) xs)"
  proof -
    fix xs show "set xs \<subseteq> set cpil \<Longrightarrow>
        concat (map (\<lambda>category. f (the (map_of cpil category))) (filter (\<lambda>key. key \<in> S) (map fst xs)))
         = concat (map (\<lambda>(category, pluginInfos). if category \<in> S then f pluginInfos else []) xs)"
    proof (induction xs)
      case Nil
      then show ?case by simp
    next
      case (Cons x xs)
      obtain k v where x: "x = (k, v)" by (cases x)
      with Cons.prems have "map_of cpil k = Some v" using assms by simp
      then show ?case using Cons x by simp
    qed
  qed
  then show ?thesis by simp
qed

lemma mergeConfig_restore:
  assumes "restoreBackend (exeInfo c)"
  shows "mergeConfig w currentEnv (c, tr) =
     (case stateManager_getTeamProviderInfo w c (projectPath (exeInfo c)) of
        Inl e \<Rightarrow> (Inl e, (c, tr @ [GetTeamProviderInfo (projectPath (exeInfo c))]))
      | Inr teamProviderInfo \<Rightarrow>
          (case ensureEnvParamManager w c currentEnv of
             Inl e \<Rightarrow> (Inl e, (c, tr @ [GetTeamProviderInfo (projectPath (exeInfo c)),
                                      EnsureEnvParamManager currentEnv]))
           | Inr mgr \<Rightarrow> (Inr (freshMeta teamProviderInfo currentEnv),
                         (c, tr @ [GetTeamProviderInfo (projectPath (exeInfo c)),
                                   EnsureEnvParamManager currentEnv]))))"
  using assms
  by (simp add: mergeConfig_def andThen_def getCtx_def call_def succeed_def Let_def split: sum.splits)

lemma runTask_freshMeta:
  "runTask w (ProviderInitEnvTask m (freshMeta teamProviderInfo currentEnv) provider) =
     (case initEnv m of
        None \<Rightarrow> throwE (typeError ''providerModule.initEnv is not a function'')
      | Some hook \<Rightarrow> invokeHook w hook
          [if provider = ''awscloudformation''
           then optChain (optChain teamProviderInfo currentEnv) ''awscloudformation''
           else JUndefined])"
  by (auto simp: freshMeta_def setProp_def andThen_def liftE_def fun_eq_iff split: option.splits)

lemma queueProviderInit_append:
  "queueProviderInit w pp meta (xs @ ys) tasks s =
     andThen (queueProviderInit w pp meta xs tasks) (\<lambda>tasks'. queueProviderInit w pp meta ys tasks') s"
  by (induction xs arbitrary: tasks s)
     (simp_all add: andThen_def succeed_def split: prod.splits sum.splits)

lemma queueProviderInit_loaded:
  assumes "\<forall>q \<in> set ps. loadedModule w c (map_of pp q) \<noteq> None"
  shows "queueProviderInit w pp meta ps tasks (c, tr) =
           (Inr (tasks @ map (\<lambda>q. ProviderInitEnvTask (the (loadedModule w c (map_of pp q))) meta q) ps),
            (c, tr @ map (\<lambda>q. Import (map_of pp q)) ps))"
  using assms
proof (induction ps arbitrary: tasks tr)
  case Nil
  then show ?case by (simp add: succeed_def)
next
  case (Cons q ps)
  from Cons.prems obtain m where m: "importModule w c (map_of pp q) = Inr m"
    by (auto simp: loadedModule_def split: sum.splits)
  then show ?case using Cons.prems
    by (simp add: andThen_def tryCatch_def call_def succeed_def Cons.IH loadedModule_def)
qed

lemma queueProviderInit_fails:
  assumes "\<forall>q \<in> set pre. loadedModule w c (map_of pp q) \<noteq> None"
    and "importModule w c (map_of pp p) = Inl e"
  shows "queueProviderInit w pp meta (pre @ p # post) tasks (c, tr) =
           (Inl (providerLoadFault p e), (c, tr @ map (\<lambda>q. Import (map_of pp q)) (pre @ [p])))"
  using assms(2)
  by (simp add: queueProviderInit_append andThen_def queueProviderInit_loaded[OF assms(1)]
        tryCatch_def call_def throwE_def providerLoadFault_def amplifyFaultWithTroubleshootingLink_def)

lemma resolve_not_task: "isResolveEvent ev \<Longrightarrow> \<not> isTaskEvent ev"
  by (cases ev) simp_all

lemma list_all_filter_none: "list_all Q xs \<Longrightarrow> (\<And>x. Q x \<Longrightarrow> \<not> P x) \<Longrightarrow> filter P xs = []"
  by (induction xs) auto

lemma task_not_tail: "isTaskEvent ev \<Longrightarrow> \<not> isTailEvent ev"
  by (cases ev) simp_all


lemma outputsChange_tail: "isOutputsChange ev \<Longrightarrow> isTailEvent ev"
  by (cases ev) simp_all

lemma sequential_events:
  "sequential w ts (c, tr) = (r, (c', tr')) \<Longrightarrow>
     \<exists>ext. tr' = tr @ ext \<and> list_all isTaskEvent ext \<and> set (startedTasks ext) \<subseteq> set ts"
proof (induction ts arbitrary: c tr)
  case Nil
  then show ?case by (simp add: succeed_def)
next
  case (Cons t ts)
  obtain r1 c1 tr1 where rt: "runTask w t (c, tr @ [TaskStarted t]) = (r1, (c1, tr1))"
    by (metis prod.exhaust)
  have "adds isTaskEvent (runTask w t)"
    by (cases t) (auto intro!: adds_intros split: option.splits)
  from addsD[OF this rt] obtain e1 where e1: "tr1 = tr @ [TaskStarted t] @ e1" "list_all isTaskEvent e1"
    by auto
  have s1: "startedTasks e1 = []"
    using runTask_startedTasks[OF rt] e1(1) by (simp add: startedTasks_append)
  show ?case
  proof (cases r1)
    case (Inl e)
    with Cons.prems rt have "tr' = tr1" by (simp add: andThen_def emit_def)
    then show ?thesis using e1 s1 by (simp add: startedTasks_append)
  next
    case (Inr u)
    with Cons.prems rt have "sequential w ts (c1, tr1) = (r, (c', tr'))"
      by (simp add: andThen_def emit_def)
    from Cons.IH[OF this] obtain e2 where "tr' = tr1 @ e2" "list_all isTaskEvent e2"
      "set (startedTasks e2) \<subseteq> set ts" by blast
    then show ?thesis using e1 s1 by (auto simp: startedTasks_append)
  qed
qed

lemma initPlatform_fails:
  "sequential w its (c, tr @ [StartCodePathTimer INIT_ENV_PLATFORM]) = (Inl e, (c2, tr2)) \<Longrightarrow>
   initPlatform w env its (c, tr) =
     (Inl (AmplifyFault ''ProjectInitFault''
            (''Could not initialize platform for '' @ [CHR 0x27] @ env @ [CHR 0x27] @ '': '' @ messageOf e)
            None resolutionHint e),
      (c2, tr2 @ [StopCodePathTimer INIT_ENV_PLATFORM]))"
  by (simp add: initPlatform_def tryFinally_def tryCatch_def andThen_def emit_def throwE_def
        amplifyFaultWithTroubleshootingLink_def)

lemma initCategories_fails:
  "sequential w cts (c, tr @ [StartCodePathTimer INIT_ENV_CATEGORIES]) = (Inl e, (c2, tr2)) \<Longrightarrow>
   initCategories w env cts (c, tr) =
     (Inl (AmplifyFault ''ProjectInitFault''
            (''Could not initialize categories for '' @ [CHR 0x27] @ env @ [CHR 0x27] @ '': '' @ messageOf e)
            None resolutionHint e),
      (c2, tr2 @ [StopCodePathTimer INIT_ENV_CATEGORIES]))"
  by (simp add: initCategories_def tryFinally_def tryCatch_def andThen_def emit_def throwE_def
        amplifyFaultWithTroubleshootingLink_def)

lemma initializeEnv_fails:
  "tryBlock w cam (envName (exeInfo c)) (isPullCommand c) (c, tr) = (Inl e, (c', tr')) \<Longrightarrow>
   initializeEnv w cam (c, tr) = (Inl e, (c', tr' @ [SpinnerFail failMessage]))"
  by (simp add: initializeEnv_def tryCatch_def andThen_def emit_def throwE_def)


lemma tryBlock_fails_before_outputs:
  "untilOutputs w env p s = (Inl e, s') \<Longrightarrow> tryBlock w cam env p s = (Inl e, s')"
  by (simp add: tryBlock_def andThen_def)

lemma untilOutputs_fails_before_push:
  "untilPushDecision w env p s = (Inl e, s') \<Longrightarrow> untilOutputs w env p s = (Inl e, s')"
  by (simp add: untilOutputs_def andThen_def)



lemma keepsCtxD: "keepsCtx m \<Longrightarrow> m (c, tr) = (r, (c', tr')) \<Longrightarrow> c' = c"
  unfolding keepsCtx_def by (metis fst_conv snd_conv)

lemma keepsCtx_succeed: "keepsCtx (succeed x)"
  by (simp add: keepsCtx_def succeed_def)

lemma keepsCtx_throwE: "keepsCtx (throwE e)"
  by (simp add: keepsCtx_def throwE_def)

lemma keepsCtx_liftE: "keepsCtx (liftE r)"
  by (simp add: keepsCtx_def liftE_def)

lemma keepsCtx_getCtx: "keepsCtx getCtx"
  by (simp add: keepsCtx_def getCtx_def)

lemma keepsCtx_emit: "keepsCtx (emit ev)"
  by (simp add: keepsCtx_def emit_def)

lemma keepsCtx_call: "keepsCtx (call ev f)"
  by (simp add: keepsCtx_def call_def)

lemma keepsCtx_andThen:
  assumes "keepsCtx m" and "\<And>x. keepsCtx (f x)"
  shows "keepsCtx (andThen m f)"
  unfolding keepsCtx_def
proof (intro allI)
  fix c tr
  obtain r c1 tr1 where m: "m (c, tr) = (r, (c1, tr1))" by (metis prod.exhaust)
  have c1: "c1 = c" by (rule keepsCtxD[OF assms(1) m])
  show "fst (snd (andThen m f (c, tr))) = c"
  proof (cases r)
    case (Inl e)
    then show ?thesis using m c1 by (simp add: andThen_def)
  next
    case (Inr x)
    obtain r2 c2 tr2 where f: "f x (c1, tr1) = (r2, (c2, tr2))" by (metis prod.exhaust)
    from keepsCtxD[OF assms(2) f] show ?thesis using m c1 Inr f by (simp add: andThen_def)
  qed
qed

lemma keepsCtx_tryCatch:
  assumes "keepsCtx m" and "\<And>e. keepsCtx (h e)"
  shows "keepsCtx (tryCatch m h)"
  unfolding keepsCtx_def
proof (intro allI)
  fix c tr
  obtain r c1 tr1 where m: "m (c, tr) = (r, (c1, tr1))" by (metis prod.exhaust)
  have c1: "c1 = c" by (rule keepsCtxD[OF assms(1) m])
  show "fst (snd (tryCatch m h (c, tr))) = c"
  proof (cases r)
    case (Inr x)
    then show ?thesis using m c1 by (simp add: tryCatch_def)
  next
    case (Inl e)
    obtain r2 c2 tr2 where f: "h e (c1, tr1) = (r2, (c2, tr2))" by (metis prod.exhaust)
    from keepsCtxD[OF assms(2) f] show ?thesis using m c1 Inl f by (simp add: tryCatch_def)
  qed
qed

lemmas keepsCtx_intros = keepsCtx_succeed keepsCtx_throwE keepsCtx_liftE keepsCtx_getCtx
  keepsCtx_emit keepsCtx_call keepsCtx_andThen keepsCtx_tryCatch

lemma keepsCtx_queuePlugins: "keepsCtx (queuePlugins w category ps tasks)"
  by (induction ps arbitrary: tasks)
     (auto intro!: keepsCtx_intros simp: importCategoryPluginAndQueueInitEnvTask_def split: option.splits)

lemma keepsCtx_queueCategories: "keepsCtx (queueCategories w cpil cats tasks)"
  by (induction cats arbitrary: tasks)
     (auto intro!: keepsCtx_intros keepsCtx_queuePlugins split: option.splits)

lemma keepsCtx_queueCategoryTasks: "keepsCtx (queueCategoryTasks w)"
  unfolding queueCategoryTasks_def getMeta_def resolveCategoryTasks_def Let_def
  by (auto intro!: keepsCtx_intros keepsCtx_queueCategories)

lemma keepsCtx_queueProviderInit: "keepsCtx (queueProviderInit w pp meta ps tasks)"
  by (induction ps arbitrary: tasks) (auto intro!: keepsCtx_intros)

lemma queueProviderInit_tasks:
  "queueProviderInit w pp meta ps tasks s = (Inr ts, s') \<Longrightarrow>
     \<exists>ms. length ms = length ps \<and> ts = tasks @ map2 (\<lambda>m q. ProviderInitEnvTask m meta q) ms ps"
proof (induction ps arbitrary: tasks s)
  case Nil
  then show ?case by (simp add: succeed_def)
next
  case (Cons q ps)
  obtain c tr where s: "s = (c, tr)" by (cases s)
  from Cons.prems obtain m where m: "importModule w c (map_of pp q) = Inr m"
    and rest: "queueProviderInit w pp meta ps (tasks @ [ProviderInitEnvTask m meta q])
                 (c, tr @ [Import (map_of pp q)]) = (Inr ts, s')"
    by (auto simp: s andThen_def tryCatch_def call_def succeed_def throwE_def split: sum.splits)
  from Cons.IH[OF rest] obtain ms where "length ms = length ps"
    "ts = (tasks @ [ProviderInitEnvTask m meta q]) @ map2 (\<lambda>m q. ProviderInitEnvTask m meta q) ms ps"
    by blast
  then show ?case by (intro exI[of _ "m # ms"]) simp
qed

lemma mergeCategoryEnvParams_same:
  "sameHostingContainer mgr mgr' \<Longrightarrow>
   mergeCategoryEnvParamsIntoAmplifyMeta mgr' meta ''hosting'' ''ElasticContainer''
   = mergeCategoryEnvParamsIntoAmplifyMeta mgr meta ''hosting'' ''ElasticContainer''"
  by (simp add: mergeCategoryEnvParamsIntoAmplifyMeta_def sameHostingContainer_def)

lemma mergeConfig_same:
  assumes "\<forall>c env. rel_sum (=) sameHostingContainer (ensureEnvParamManager w c env) (f c env)"
  shows "mergeConfig (w\<lparr>ensureEnvParamManager := f\<rparr>) currentEnv s = mergeConfig w currentEnv s"
proof -
  obtain c tr where s: "s = (c, tr)" by (cases s)
  have rel: "rel_sum (=) sameHostingContainer (ensureEnvParamManager w c currentEnv) (f c currentEnv)"
    using assms by blast
  show ?thesis
  proof (cases "ensureEnvParamManager w c currentEnv")
    case (Inl e)
    with rel have "f c currentEnv = Inl e" by (cases "f c currentEnv") simp_all
    with Inl show ?thesis
      by (simp add: s mergeConfig_def andThen_def call_def getCtx_def Let_def split: sum.splits)
  next
    case (Inr mgr)
    with rel obtain mgr' where f: "f c currentEnv = Inr mgr'" and same: "sameHostingContainer mgr mgr'"
      by (cases "f c currentEnv") simp_all
    show ?thesis
      using Inr f mergeCategoryEnvParams_same[OF same]
      by (simp add: s mergeConfig_def andThen_def call_def getCtx_def Let_def
            mergeBackendConfigIntoAmplifyMeta_def split: sum.splits)
  qed
qed

subsection \<open>The example project, evaluated\<close>

lemmas monad_defs = andThen_def tryCatch_def tryFinally_def call_def emit_def getCtx_def
  modifyCtx_def succeed_def throwE_def liftE_def invokeHook_def

lemmas phase_defs = initializeEnv_def tryBlock_def untilOutputs_def untilPushDecision_def
  resolveSteps_def mergeConfig_def freshMeta_def setProp_def mergeBackendConfigIntoAmplifyMeta_def
  mergeCategoryEnvParamsIntoAmplifyMeta_def assignAll_def setMeta_def queueCategoryTasks_def
  getMeta_def resolveCategoryTasks_def availableCategories_def
  importCategoryPluginAndQueueInitEnvTask_def initPlatform_def initCategories_def
  refreshProjectDetails_def decidePush_def pushPhase_def isPullCommand_def Let_def
  startMessage_def succeedMessage_def
  amplifyFaultWithTroubleshootingLink_def

lemmas example_defs = devWorld_def devCtx_def failingHook_def devTeamProviderInfo_def noParams_def
  authModule_def codegenModule_def awsModule_def storedMeta_def restoreCtx_def
  missingProviderPlugin_def declinedPush_def devMeta_def devResolved_def devCategoryTrace_def
  devResolveTrace_def devProviderTask_def devPushTask_def devPlatformTrace_def devDecisionTrace_def
  devPushTrace_def hostingMeta_def hostingParams_def
  devDecided_def

lemma dev_isPull: "isPullCommand devCtx = False" "envName (exeInfo devCtx) = ''dev''"
  by (simp_all add: isPullCommand_def devCtx_def)

lemma dev_resolveSteps:
  "resolveSteps (failingHook h) ''dev'' False (devCtx, [])
     = (Inr ([CategoryInitEnvTask ''auth.initEnv''], [(''awscloudformation'', ''plugins/aws'')],
             [devProviderTask]), (devResolved, devResolveTrace))"
  by (simp add: monad_defs phase_defs example_defs)

lemma dev_untilPushDecision:
  "untilPushDecision (failingHook ''aws.pushResources'') ''dev'' False (devCtx, [])
     = (Inr [(''awscloudformation'', ''plugins/aws'')], (devDecided True, devDecisionTrace))"
  by (simp add: monad_defs phase_defs example_defs pushQuestion_def)

lemma restore_resolveSteps:
  "resolveSteps devWorld ''dev'' False (restoreCtx, [])
     = (Inr ([CategoryInitEnvTask ''auth.initEnv''], [(''awscloudformation'', ''plugins/aws'')],
             [ProviderInitEnvTask awsModule (freshMeta devTeamProviderInfo ''dev'') ''awscloudformation'']),
        (restoreCtx,
         [GetTeamProviderInfo ''/p'', EnsureEnvParamManager ''dev'', GetMeta, GetAllCategoryPluginInfo,
          Import (Some ''plugins/auth''), Import (Some ''plugins/codegen''), GetProviderPlugins,
          Import (Some ''plugins/aws''), SpinnerStart ''Initializing your environment: dev'']))"
  by (simp add: monad_defs phase_defs example_defs)

section \<open>The configuration merge\<close>

text \<open>
  C1. In a run with \<open>restoreBackend\<close> set, the merge step asks for the team
  provider info and the parameter manager and nothing else: it does not read
  the backend config, does not query the parameter manager, does not persist
  the meta, and leaves the context (the stored meta included) as it was. The
  meta it hands to the rest of the run is not the stored one: it is the fresh
  \<open>{providers: {awscloudformation: teamProviderInfo?.[env]?.awscloudformation}}\<close>.
  Every provider task queued by the resolve steps carries that meta, the
  context after the resolve steps is the one before them, and a provider's
  \<open>initEnv\<close> is called with the team provider info's entry for
  \<open>awscloudformation\<close> and with \<open>undefined\<close> for any other provider.
\<close>

theorem restoreBackend_skips_merge:
  assumes "restoreBackend (exeInfo c)"
  shows
   "mergeConfig w currentEnv (c, tr) =
      (case stateManager_getTeamProviderInfo w c (projectPath (exeInfo c)) of
         Inl e \<Rightarrow> (Inl e, (c, tr @ [GetTeamProviderInfo (projectPath (exeInfo c))]))
       | Inr teamProviderInfo \<Rightarrow>
           (case ensureEnvParamManager w c currentEnv of
              Inl e \<Rightarrow> (Inl e, (c, tr @ [GetTeamProviderInfo (projectPath (exeInfo c)),
                                       EnsureEnvParamManager currentEnv]))
            | Inr mgr \<Rightarrow> (Inr (freshMeta teamProviderInfo currentEnv),
                          (c, tr @ [GetTeamProviderInfo (projectPath (exeInfo c)),
                                    EnsureEnvParamManager currentEnv]))))
    \<and> (resolveSteps w currentEnv isPulling (c, tr)
          = (Inr (categoryTasks, providerPlugins, providerTasks), (c1, tr1)) \<longrightarrow>
        c1 = c \<and>
        (\<exists>teamProviderInfo ms.
           stateManager_getTeamProviderInfo w c (projectPath (exeInfo c)) = Inr teamProviderInfo
           \<and> length ms = length (providers (exeInfo c))
           \<and> providerTasks =
               map2 (\<lambda>m provider. ProviderInitEnvTask m (freshMeta teamProviderInfo currentEnv) provider)
                 ms (providers (exeInfo c))))
    \<and> runTask w (ProviderInitEnvTask m (freshMeta teamProviderInfo currentEnv) provider) =
        (case initEnv m of
           None \<Rightarrow> throwE (typeError ''providerModule.initEnv is not a function'')
         | Some hook \<Rightarrow> invokeHook w hook
             [if provider = ''awscloudformation''
              then optChain (optChain teamProviderInfo currentEnv) ''awscloudformation''
              else JUndefined])"
proof (intro conjI impI)
  show "mergeConfig w currentEnv (c, tr) =
      (case stateManager_getTeamProviderInfo w c (projectPath (exeInfo c)) of
         Inl e \<Rightarrow> (Inl e, (c, tr @ [GetTeamProviderInfo (projectPath (exeInfo c))]))
       | Inr teamProviderInfo \<Rightarrow>
           (case ensureEnvParamManager w c currentEnv of
              Inl e \<Rightarrow> (Inl e, (c, tr @ [GetTeamProviderInfo (projectPath (exeInfo c)),
                                       EnsureEnvParamManager currentEnv]))
            | Inr mgr \<Rightarrow> (Inr (freshMeta teamProviderInfo currentEnv),
                          (c, tr @ [GetTeamProviderInfo (projectPath (exeInfo c)),
                                    EnsureEnvParamManager currentEnv]))))"
    by (rule mergeConfig_restore[OF assms])
  show "runTask w (ProviderInitEnvTask m (freshMeta teamProviderInfo currentEnv) provider) =
        (case initEnv m of
           None \<Rightarrow> throwE (typeError ''providerModule.initEnv is not a function'')
         | Some hook \<Rightarrow> invokeHook w hook
             [if provider = ''awscloudformation''
              then optChain (optChain teamProviderInfo currentEnv) ''awscloudformation''
              else JUndefined])"
    by (rule runTask_freshMeta)
next
  assume rs: "resolveSteps w currentEnv isPulling (c, tr)
          = (Inr (categoryTasks, providerPlugins, providerTasks), (c1, tr1))"
  obtain r0 c0 tr0 where mc: "mergeConfig w currentEnv (c, tr) = (r0, (c0, tr0))"
    by (metis prod.exhaust)
  from rs mc obtain meta where r0: "r0 = Inr meta"
    by (cases r0) (auto simp: resolveSteps_def andThen_def)
  from mc r0 mergeConfig_restore[OF assms, of w currentEnv tr]
  obtain tpi where tpi: "stateManager_getTeamProviderInfo w c (projectPath (exeInfo c)) = Inr tpi"
    and meta: "meta = freshMeta tpi currentEnv" and c0: "c0 = c"
    by (auto split: sum.splits)
  obtain r2 c2 tr2 where qc: "queueCategoryTasks w (c0, tr0) = (r2, (c2, tr2))"
    by (metis prod.exhaust)
  have c2: "c2 = c" using keepsCtxD[OF keepsCtx_queueCategoryTasks qc] c0 by simp
  from rs mc r0 qc obtain cts where r2: "r2 = Inr cts"
    by (cases r2) (auto simp: resolveSteps_def andThen_def)
  from rs mc r0 qc r2 c2 obtain pp where pp: "getProviderPlugins w c = Inr pp"
    by (cases "getProviderPlugins w c") (auto simp: resolveSteps_def andThen_def call_def)
  obtain r3 c3 tr3 where qp: "queueProviderInit w pp meta (providers (exeInfo c)) []
      (c, tr2 @ [GetProviderPlugins]) = (r3, (c3, tr3))"
    by (metis prod.exhaust)
  have c3: "c3 = c" by (rule keepsCtxD[OF keepsCtx_queueProviderInit qp])
  from rs mc r0 qc r2 c2 pp qp have r3: "r3 = Inr providerTasks" and "c1 = c3"
    by (cases r3; auto simp: resolveSteps_def andThen_def call_def getCtx_def emit_def succeed_def)+
  then show "c1 = c" using c3 by simp
  from queueProviderInit_tasks[OF qp[unfolded r3]] tpi meta
  show "\<exists>teamProviderInfo ms.
           stateManager_getTeamProviderInfo w c (projectPath (exeInfo c)) = Inr teamProviderInfo
           \<and> length ms = length (providers (exeInfo c))
           \<and> providerTasks =
               map2 (\<lambda>m provider. ProviderInitEnvTask m (freshMeta teamProviderInfo currentEnv) provider)
                 ms (providers (exeInfo c))"
    by auto
qed

text \<open>
  The example project with \<open>restoreBackend\<close> set and a stored meta.
\<close>

theorem restoreBackend_skips_merge_witness:
  "mergeConfig devWorld ''dev'' (restoreCtx, []) =
     (Inr [(''providers'', JObject [(''awscloudformation'', JObject [(''Region'', JStr ''us-east-1'')])])],
      (restoreCtx, [GetTeamProviderInfo ''/p'', EnsureEnvParamManager ''dev'']))
   \<and> (\<exists>ms. length ms = 1 \<and>
         [ProviderInitEnvTask awsModule (freshMeta devTeamProviderInfo ''dev'') ''awscloudformation'']
           = map2 (\<lambda>m provider. ProviderInitEnvTask m (freshMeta devTeamProviderInfo ''dev'') provider)
               ms [''awscloudformation''])"
proof -
  have r: "restoreBackend (exeInfo restoreCtx)" by (simp add: example_defs)
  note t = restoreBackend_skips_merge[OF r, of devWorld "''dev''" "[]" False
      "[CategoryInitEnvTask ''auth.initEnv'']" "[(''awscloudformation'', ''plugins/aws'')]"
      "[ProviderInitEnvTask awsModule (freshMeta devTeamProviderInfo ''dev'') ''awscloudformation'']"]
  from t have "mergeConfig devWorld ''dev'' (restoreCtx, []) =
      (case stateManager_getTeamProviderInfo devWorld restoreCtx (projectPath (exeInfo restoreCtx)) of
         Inl e \<Rightarrow> (Inl e, (restoreCtx, [] @ [GetTeamProviderInfo (projectPath (exeInfo restoreCtx))]))
       | Inr teamProviderInfo \<Rightarrow>
           (case ensureEnvParamManager devWorld restoreCtx ''dev'' of
              Inl e \<Rightarrow> (Inl e, (restoreCtx, [] @ [GetTeamProviderInfo (projectPath (exeInfo restoreCtx)),
                                       EnsureEnvParamManager ''dev'']))
            | Inr mgr \<Rightarrow> (Inr (freshMeta teamProviderInfo ''dev''),
                          (restoreCtx, [] @ [GetTeamProviderInfo (projectPath (exeInfo restoreCtx)),
                                    EnsureEnvParamManager ''dev'']))))"
    by blast
  then have 1: "mergeConfig devWorld ''dev'' (restoreCtx, []) =
     (Inr [(''providers'', JObject [(''awscloudformation'', JObject [(''Region'', JStr ''us-east-1'')])])],
      (restoreCtx, [GetTeamProviderInfo ''/p'', EnsureEnvParamManager ''dev'']))"
    by (simp add: devWorld_def devTeamProviderInfo_def freshMeta_def setProp_def restoreCtx_def devCtx_def)
  from t restore_resolveSteps
  have "\<exists>teamProviderInfo ms.
           stateManager_getTeamProviderInfo devWorld restoreCtx (projectPath (exeInfo restoreCtx)) = Inr teamProviderInfo
           \<and> length ms = length (providers (exeInfo restoreCtx))
           \<and> [ProviderInitEnvTask awsModule (freshMeta devTeamProviderInfo ''dev'') ''awscloudformation''] =
               map2 (\<lambda>m provider. ProviderInitEnvTask m (freshMeta teamProviderInfo ''dev'') provider)
                 ms (providers (exeInfo restoreCtx))"
    by blast
  then have 2: "\<exists>ms. length ms = 1 \<and>
         [ProviderInitEnvTask awsModule (freshMeta devTeamProviderInfo ''dev'') ''awscloudformation'']
           = map2 (\<lambda>m provider. ProviderInitEnvTask m (freshMeta devTeamProviderInfo ''dev'') provider)
               ms [''awscloudformation'']"
    by (simp add: devWorld_def restoreCtx_def devCtx_def)
  from 1 2 show ?thesis by blast
qed

text \<open>
  The stored meta is not what the provider hook gets: with a stored region
  eu-west-1 and a team provider info region us-east-1, the run succeeds and
  \<open>initEnv\<close> is called with us-east-1, never with the stored entry.
\<close>

theorem restoreBackend_meta_counterexample:
  "restoreBackend (exeInfo restoreCtx)
   \<and> metaFile restoreCtx = Inr storedMeta
   \<and> resourceOf storedMeta ''providers'' ''awscloudformation'' = JObject [(''Region'', JStr ''eu-west-1'')]
   \<and> fst (initializeEnv devWorld (JObject storedMeta) (restoreCtx, [])) = Inr ()
   \<and> HookInvoked ''aws.initEnv'' [JObject [(''Region'', JStr ''us-east-1'')]]
        \<in> set (snd (snd (initializeEnv devWorld (JObject storedMeta) (restoreCtx, []))))
   \<and> HookInvoked ''aws.initEnv'' [resourceOf storedMeta ''providers'' ''awscloudformation'']
        \<notin> set (snd (snd (initializeEnv devWorld (JObject storedMeta) (restoreCtx, []))))"
  by (simp add: monad_defs phase_defs example_defs resourceOf_def pushQuestion_def)

text \<open>
  C2. Merging the overrides of a (category, resource) pair: when no overrides
  are recorded for the pair (no resource parameter manager, or one without
  parameters) the meta is returned as it is and nothing is thrown, whether the
  entry exists or not. When overrides are recorded and the entry
  \<open>meta[category][serviceName]\<close> is an object, the merge succeeds and the
  entry afterwards holds the overrides' values for their keys and its old
  values for the other keys.
\<close>

theorem merge_overrides:
  "(\<not> (hasResourceParamManager mgr category serviceName
        \<and> hasAnyParams (getResourceParamManager mgr category serviceName)) \<longrightarrow>
      mergeCategoryEnvParamsIntoAmplifyMeta mgr meta category serviceName (c, tr)
        = (Inr meta, (c, tr @ (HasResourceParamManager category serviceName #
             (if hasResourceParamManager mgr category serviceName
              then [HasAnyParams category serviceName] else []))))) \<and>
   (hasResourceParamManager mgr category serviceName \<longrightarrow>
    hasAnyParams (getResourceParamManager mgr category serviceName) \<longrightarrow>
    map_of meta category = Some (JObject resources) \<longrightarrow>
    map_of resources serviceName = Some (JObject entry) \<longrightarrow>
      (\<exists>meta' resources' entry'.
         fst (mergeCategoryEnvParamsIntoAmplifyMeta mgr meta category serviceName (c, tr)) = Inr meta'
         \<and> map_of meta' category = Some (JObject resources')
         \<and> map_of resources' serviceName = Some (JObject entry')
         \<and> map_of entry' = map_of entry
              ++ map_of (rev (getAllParams (getResourceParamManager mgr category serviceName)))))"
proof (intro conjI impI)
  assume "\<not> (hasResourceParamManager mgr category serviceName
        \<and> hasAnyParams (getResourceParamManager mgr category serviceName))"
  then show "mergeCategoryEnvParamsIntoAmplifyMeta mgr meta category serviceName (c, tr)
        = (Inr meta, (c, tr @ (HasResourceParamManager category serviceName #
             (if hasResourceParamManager mgr category serviceName
              then [HasAnyParams category serviceName] else []))))"
    by (auto simp: mergeCategoryEnvParamsIntoAmplifyMeta_def andThen_def emit_def succeed_def)
next
  assume h: "hasResourceParamManager mgr category serviceName"
    "hasAnyParams (getResourceParamManager mgr category serviceName)"
    "map_of meta category = Some (JObject resources)"
    "map_of resources serviceName = Some (JObject entry)"
  let ?ps = "getAllParams (getResourceParamManager mgr category serviceName)"
  let ?entry' = "assignAll entry ?ps"
  let ?resources' = "setProp resources serviceName (JObject ?entry')"
  let ?meta' = "setProp meta category (JObject ?resources')"
  have "fst (mergeCategoryEnvParamsIntoAmplifyMeta mgr meta category serviceName (c, tr)) = Inr ?meta'"
    using h by (simp add: mergeCategoryEnvParams_fst mergeResult_def putResource_def)
  moreover have "map_of ?meta' category = Some (JObject ?resources')"
    by (simp add: map_of_setProp)
  moreover have "map_of ?resources' serviceName = Some (JObject ?entry')"
    by (simp add: map_of_setProp)
  moreover have "map_of ?entry' = map_of entry ++ map_of (rev ?ps)"
    by (rule map_of_assignAll)
  ultimately show "\<exists>meta' resources' entry'.
         fst (mergeCategoryEnvParamsIntoAmplifyMeta mgr meta category serviceName (c, tr)) = Inr meta'
         \<and> map_of meta' category = Some (JObject resources')
         \<and> map_of resources' serviceName = Some (JObject entry')
         \<and> map_of entry' = map_of entry ++ map_of (rev ?ps)"
    by blast
qed

theorem merge_overrides_witness:
  "mergeCategoryEnvParamsIntoAmplifyMeta noParams hostingMeta ''hosting'' ''ElasticContainer'' (devCtx, [])
     = (Inr hostingMeta, (devCtx, [HasResourceParamManager ''hosting'' ''ElasticContainer'']))
   \<and> (\<exists>meta' resources' entry'.
         fst (mergeCategoryEnvParamsIntoAmplifyMeta hostingParams hostingMeta
                ''hosting'' ''ElasticContainer'' (devCtx, [])) = Inr meta'
         \<and> map_of meta' ''hosting'' = Some (JObject resources')
         \<and> map_of resources' ''ElasticContainer'' = Some (JObject entry')
         \<and> map_of entry' ''domain'' = Some (JStr ''example.com'')
         \<and> map_of entry' ''port'' = Some (JStr ''80''))"
proof -
  have a: "\<not> (hasResourceParamManager noParams ''hosting'' ''ElasticContainer''
        \<and> hasAnyParams (getResourceParamManager noParams ''hosting'' ''ElasticContainer''))"
    by (simp add: noParams_def)
  have b: "hasResourceParamManager hostingParams ''hosting'' ''ElasticContainer''"
    "hasAnyParams (getResourceParamManager hostingParams ''hosting'' ''ElasticContainer'')"
    "map_of hostingMeta ''hosting'' = Some (JObject
         [(''S3AndCloudFront'', JObject [(''service'', JStr ''S3AndCloudFront'')]),
          (''ElasticContainer'', JObject [(''domain'', JStr ''old.example.com''), (''port'', JStr ''80'')])])"
    "map_of [(''S3AndCloudFront'', JObject [(''service'', JStr ''S3AndCloudFront'')]),
          (''ElasticContainer'', JObject [(''domain'', JStr ''old.example.com''), (''port'', JStr ''80'')])]
       ''ElasticContainer'' = Some (JObject [(''domain'', JStr ''old.example.com''), (''port'', JStr ''80'')])"
    by (simp_all add: hostingParams_def hostingMeta_def)
  from merge_overrides[of noParams "''hosting''" "''ElasticContainer''" hostingMeta devCtx "[]"] a
  have 1: "mergeCategoryEnvParamsIntoAmplifyMeta noParams hostingMeta ''hosting'' ''ElasticContainer'' (devCtx, [])
     = (Inr hostingMeta, (devCtx, [HasResourceParamManager ''hosting'' ''ElasticContainer'']))"
    by (simp add: noParams_def)
  from merge_overrides[of hostingParams "''hosting''" "''ElasticContainer''" hostingMeta devCtx "[]"] b
  obtain meta' resources' entry' where
    "fst (mergeCategoryEnvParamsIntoAmplifyMeta hostingParams hostingMeta
                ''hosting'' ''ElasticContainer'' (devCtx, [])) = Inr meta'"
    "map_of meta' ''hosting'' = Some (JObject resources')"
    "map_of resources' ''ElasticContainer'' = Some (JObject entry')"
    "map_of entry' = map_of [(''domain'', JStr ''old.example.com''), (''port'', JStr ''80'')]
        ++ map_of (rev (getAllParams (getResourceParamManager hostingParams ''hosting'' ''ElasticContainer'')))"
    by blast
  then have "\<exists>meta' resources' entry'.
         fst (mergeCategoryEnvParamsIntoAmplifyMeta hostingParams hostingMeta
                ''hosting'' ''ElasticContainer'' (devCtx, [])) = Inr meta'
         \<and> map_of meta' ''hosting'' = Some (JObject resources')
         \<and> map_of resources' ''ElasticContainer'' = Some (JObject entry')
         \<and> map_of entry' ''domain'' = Some (JStr ''example.com'')
         \<and> map_of entry' ''port'' = Some (JStr ''80'')"
    by (intro exI[of _ meta'] exI[of _ resources'] exI[of _ entry']) (simp add: hostingParams_def)
  with 1 show ?thesis by blast
qed

text \<open>
  With overrides recorded and no \<open>hosting\<close> entry in the meta, the merge
  throws a \<open>TypeError\<close>.
\<close>

theorem merge_absent_entry_counterexample:
  "hasResourceParamManager hostingParams ''hosting'' ''ElasticContainer''
   \<and> hasAnyParams (getResourceParamManager hostingParams ''hosting'' ''ElasticContainer'')
   \<and> map_of devMeta ''hosting'' = None
   \<and> fst (mergeCategoryEnvParamsIntoAmplifyMeta hostingParams devMeta
             ''hosting'' ''ElasticContainer'' (devCtx, []))
       = Inl (JsError ''TypeError''
               (''Cannot read properties of undefined (reading '' @ quoted ''ElasticContainer'' @ '')''))"
  by (simp add: mergeCategoryEnvParams_fst mergeResult_def hostingParams_def typeError_def devMeta_def)

text \<open>
  C10. The merge step consults the parameter manager for the pair
  \<open>(hosting, ElasticContainer)\<close> only: two parameter managers that agree on
  that pair give the same merge step (result, stored meta and trace),
  whatever they record for other pairs. And the parameter merge for a pair
  keeps the meta's keys, every entry of another category, and every entry of
  another resource of the same category.
\<close>

theorem param_merge_only_hosting_container:
  "((\<forall>c env. rel_sum (=) sameHostingContainer (ensureEnvParamManager w c env) (f c env)) \<longrightarrow>
      mergeConfig (w\<lparr>ensureEnvParamManager := f\<rparr>) currentEnv s = mergeConfig w currentEnv s)
   \<and> (fst (mergeCategoryEnvParamsIntoAmplifyMeta mgr meta category serviceName s') = Inr meta' \<longrightarrow>
        map fst meta' = map fst meta
        \<and> (\<forall>k. k \<noteq> category \<longrightarrow> map_of meta' k = map_of meta k)
        \<and> (\<forall>r. r \<noteq> serviceName \<longrightarrow> resourceOf meta' category r = resourceOf meta category r))"
  using mergeConfig_same[of w f currentEnv s]
    mergeResult_frame[of mgr meta category serviceName meta']
  by (simp add: mergeCategoryEnvParams_fst)

theorem param_merge_only_hosting_container_witness:
  "mergeConfig (devWorld\<lparr>ensureEnvParamManager := (\<lambda>c env. Inr authParams)\<rparr>) ''dev'' (devCtx, [])
     = mergeConfig devWorld ''dev'' (devCtx, [])
   \<and> fst (mergeConfig (devWorld\<lparr>ensureEnvParamManager := (\<lambda>c env. Inr authParams)\<rparr>) ''dev'' (devCtx, []))
     = Inr devMeta
   \<and> (\<exists>meta'. fst (mergeCategoryEnvParamsIntoAmplifyMeta hostingParams hostingMeta
                       ''hosting'' ''ElasticContainer'' (devCtx, [])) = Inr meta'
        \<and> map fst meta' = [''providers'', ''hosting'']
        \<and> map_of meta' ''providers'' = Some (JObject [])
        \<and> resourceOf meta' ''hosting'' ''S3AndCloudFront'' = JObject [(''service'', JStr ''S3AndCloudFront'')]
        \<and> resourceOf meta' ''hosting'' ''ElasticContainer''
             = JObject [(''domain'', JStr ''example.com''), (''port'', JStr ''80'')])"
proof -
  have a: "\<forall>c env. rel_sum (=) sameHostingContainer (ensureEnvParamManager devWorld c env) (Inr authParams)"
    by (simp add: devWorld_def sameHostingContainer_def noParams_def authParams_def)
  note t = param_merge_only_hosting_container[of devWorld "\<lambda>c env. Inr authParams" "''dev''" "(devCtx, [])"
      hostingParams hostingMeta "''hosting''" "''ElasticContainer''" "(devCtx, [])"]
  from t a have 1: "mergeConfig (devWorld\<lparr>ensureEnvParamManager := (\<lambda>c env. Inr authParams)\<rparr>) ''dev'' (devCtx, [])
     = mergeConfig devWorld ''dev'' (devCtx, [])" by blast
  have 2: "fst (mergeConfig devWorld ''dev'' (devCtx, [])) = Inr devMeta"
    by (simp add: monad_defs phase_defs example_defs)
  let ?meta' = "[(''providers'', JObject []),
      (''hosting'', JObject
         [(''S3AndCloudFront'', JObject [(''service'', JStr ''S3AndCloudFront'')]),
          (''ElasticContainer'', JObject [(''domain'', JStr ''example.com''), (''port'', JStr ''80'')])])]"
  have m: "fst (mergeCategoryEnvParamsIntoAmplifyMeta hostingParams hostingMeta
                       ''hosting'' ''ElasticContainer'' (devCtx, [])) = Inr ?meta'"
    by (simp add: mergeCategoryEnvParams_fst mergeResult_def hostingParams_def hostingMeta_def
          putResource_def setProp_def assignAll_def)
  from t[of ?meta'] m have f: "map fst ?meta' = map fst hostingMeta"
    "(\<forall>k. k \<noteq> ''hosting'' \<longrightarrow> map_of ?meta' k = map_of hostingMeta k)"
    "(\<forall>r. r \<noteq> ''ElasticContainer'' \<longrightarrow> resourceOf ?meta' ''hosting'' r = resourceOf hostingMeta ''hosting'' r)"
    by blast+
  from f(2)[rule_format, of "''providers''"]
  have p: "map_of ?meta' ''providers'' = map_of hostingMeta ''providers''" by simp
  from f(3)[rule_format, of "''S3AndCloudFront''"]
  have r: "resourceOf ?meta' ''hosting'' ''S3AndCloudFront''
      = resourceOf hostingMeta ''hosting'' ''S3AndCloudFront''" by simp
  have "\<exists>meta'. fst (mergeCategoryEnvParamsIntoAmplifyMeta hostingParams hostingMeta
                       ''hosting'' ''ElasticContainer'' (devCtx, [])) = Inr meta'
        \<and> map fst meta' = [''providers'', ''hosting'']
        \<and> map_of meta' ''providers'' = Some (JObject [])
        \<and> resourceOf meta' ''hosting'' ''S3AndCloudFront'' = JObject [(''service'', JStr ''S3AndCloudFront'')]
        \<and> resourceOf meta' ''hosting'' ''ElasticContainer''
             = JObject [(''domain'', JStr ''example.com''), (''port'', JStr ''80'')]"
    using m f(1) p r
    by (intro exI[of _ ?meta']) (simp add: hostingMeta_def resourceOf_def)
  with 1 2 show ?thesis by simp
qed

section \<open>Resolving the hooks\<close>

text \<open>
  C7. With the category plugin info list an object (distinct keys) and every
  plugin of a category in the initialized set loading, the resolved task list
  is the one the spec describes: in the list's order, one task for each plugin
  of a category in the set whose module has an \<open>initEnv\<close> hook. A category
  outside the set gives no task and its plugins are not even imported; a
  module without the hook gives no task and no error.
\<close>

theorem category_tasks_resolved:
  assumes "distinct (map fst categoryPluginInfoList)"
    and "\<forall>p \<in> set (consideredPlugins categoryPluginInfoList initializedCategorySet).
           loadedModule w c (Some (packageLocation p)) \<noteq> None"
  shows "resolveCategoryTasks w categoryPluginInfoList initializedCategorySet (c, tr)
           = (Inr (expectedCategoryTasks w c categoryPluginInfoList initializedCategorySet),
              (c, tr @ map importOf (consideredPlugins categoryPluginInfoList initializedCategorySet)))"
proof -
  let ?cats = "availableCategories categoryPluginInfoList initializedCategorySet"
  have ok: "\<forall>category \<in> set ?cats. \<exists>ps. map_of categoryPluginInfoList category = Some ps \<and>
             (\<forall>p \<in> set ps. loadedModule w c (Some (packageLocation p)) \<noteq> None)"
  proof
    fix category assume "category \<in> set ?cats"
    then obtain ps where in_list: "(category, ps) \<in> set categoryPluginInfoList"
      and ini: "category \<in> set initializedCategorySet"
      by (auto simp: availableCategories_def)
    then have "map_of categoryPluginInfoList category = Some ps" using assms(1) by simp
    moreover have "set ps \<subseteq> set (consideredPlugins categoryPluginInfoList initializedCategorySet)"
      using in_list ini by (force simp: consideredPlugins_def)
    ultimately show "\<exists>ps. map_of categoryPluginInfoList category = Some ps \<and>
             (\<forall>p \<in> set ps. loadedModule w c (Some (packageLocation p)) \<noteq> None)"
      using assms(2) by blast
  qed
  have t: "concat (map (\<lambda>category. pluginTasks w c (the (map_of categoryPluginInfoList category))) ?cats)
        = expectedCategoryTasks w c categoryPluginInfoList initializedCategorySet"
    unfolding availableCategories_def expectedCategoryTasks_def
    by (rule concat_over_available[OF assms(1)])
  have i: "concat (map (\<lambda>category. map importOf (the (map_of categoryPluginInfoList category))) ?cats)
        = map importOf (consideredPlugins categoryPluginInfoList initializedCategorySet)"
    unfolding availableCategories_def consideredPlugins_def
    by (simp add: concat_over_available[OF assms(1)] map_concat comp_def case_prod_unfold if_distrib[of "map importOf"] cong: if_cong)
  show ?thesis
    unfolding resolveCategoryTasks_def
    by (simp add: queueCategories_loaded[OF ok] t i)
qed

theorem category_tasks_resolved_witness:
  "resolveCategoryTasks devWorld
      [(''auth'', [\<lparr>packageLocation = ''plugins/auth''\<rparr>, \<lparr>packageLocation = ''plugins/codegen''\<rparr>]),
       (''storage'', [\<lparr>packageLocation = ''plugins/storage''\<rparr>])]
      [''providers'', ''auth''] (devCtx, [])
    = (Inr [CategoryInitEnvTask ''auth.initEnv''],
       (devCtx, [Import (Some ''plugins/auth''), Import (Some ''plugins/codegen'')]))"
proof -
  let ?cpil = "[(''auth'', [\<lparr>packageLocation = ''plugins/auth''\<rparr>, \<lparr>packageLocation = ''plugins/codegen''\<rparr>]),
       (''storage'', [\<lparr>packageLocation = ''plugins/storage''\<rparr>])]"
  have d: "distinct (map fst ?cpil)" by simp
  have l: "\<forall>p \<in> set (consideredPlugins ?cpil [''providers'', ''auth'']).
           loadedModule devWorld devCtx (Some (packageLocation p)) \<noteq> None"
    by (simp add: consideredPlugins_def loadedModule_def devWorld_def)
  from category_tasks_resolved[OF d l, of "[]"]
  show ?thesis
    by (simp add: expectedCategoryTasks_def pluginTasks_def consideredPlugins_def loadedModule_def
          importOf_def devWorld_def authModule_def codegenModule_def)
qed

text \<open>
  C6. If the merge and the category resolution succeed, the providers before
  \<open>provider\<close> load and \<open>provider\<close>'s plugin fails to load with \<open>e\<close>, the
  run fails at once with a \<open>PluginNotLoadedFault\<close> that names the provider,
  has \<open>e\<close>'s message as details and \<open>e\<close> as cause; the trace ends with the
  failed import and the spinner's failure, and no task was started and no
  hook called.
\<close>

theorem provider_load_failure_aborts:
  assumes "mergeConfig w (envName (exeInfo c0)) (c0, tr0) = (Inr amplifyMeta, (c1, tr1))"
    and "queueCategoryTasks w (c1, tr1) = (Inr categoryTasks, (c2, tr2))"
    and "getProviderPlugins w c2 = Inr providerPlugins"
    and "providers (exeInfo c2) = pre @ provider # post"
    and "\<forall>q \<in> set pre. loadedModule w c2 (map_of providerPlugins q) \<noteq> None"
    and "importModule w c2 (map_of providerPlugins provider) = Inl e"
  shows "initializeEnv w currentAmplifyMeta (c0, tr0) =
           (Inl (providerLoadFault provider e),
            (c2, tr2 @ GetProviderPlugins # map (\<lambda>q. Import (map_of providerPlugins q)) (pre @ [provider])
                   @ [SpinnerFail failMessage]))
         \<and> filter isTaskEvent (tr2 @ GetProviderPlugins
               # map (\<lambda>q. Import (map_of providerPlugins q)) (pre @ [provider])
               @ [SpinnerFail failMessage]) = filter isTaskEvent tr0"
proof
  have rs: "resolveSteps w (envName (exeInfo c0)) (isPullCommand c0) (c0, tr0) =
          (Inl (providerLoadFault provider e),
            (c2, tr2 @ GetProviderPlugins # map (\<lambda>q. Import (map_of providerPlugins q)) (pre @ [provider])))"
    using assms(1,2,3,4) queueProviderInit_fails[OF assms(5,6)]
    by (simp add: resolveSteps_def andThen_def call_def getCtx_def)
  then show "initializeEnv w currentAmplifyMeta (c0, tr0) =
           (Inl (providerLoadFault provider e),
            (c2, tr2 @ GetProviderPlugins # map (\<lambda>q. Import (map_of providerPlugins q)) (pre @ [provider])
                   @ [SpinnerFail failMessage]))"
    by (simp add: initializeEnv_def tryCatch_def tryBlock_def untilOutputs_def untilPushDecision_def
         andThen_def emit_def throwE_def)
  from addsD[OF adds_resolveSteps rs, of isResolveEvent]
  obtain ext where ext: "tr2 @ GetProviderPlugins # map (\<lambda>q. Import (map_of providerPlugins q)) (pre @ [provider]) = tr0 @ ext"
    "list_all isResolveEvent ext" by auto
  have "filter isTaskEvent ext = []"
    using ext(2) resolve_not_task by (rule list_all_filter_none)
  then have "filter isTaskEvent (tr0 @ ext @ [SpinnerFail failMessage]) = filter isTaskEvent tr0"
    by simp
  then show "filter isTaskEvent (tr2 @ GetProviderPlugins
               # map (\<lambda>q. Import (map_of providerPlugins q)) (pre @ [provider])
               @ [SpinnerFail failMessage]) = filter isTaskEvent tr0"
    using ext(1) by (metis append.assoc append_Cons)
qed

theorem provider_load_failure_aborts_witness:
  "initializeEnv missingProviderPlugin JUndefined (devCtx, []) =
     (Inl (AmplifyFault ''PluginNotLoadedFault'' ''Could not load plugin for provider awscloudformation.''
            (Some ''Cannot find module'') resolutionHint (JsError ''Error'' ''Cannot find module'')),
      (devResolved, devCategoryTrace @ [GetProviderPlugins, Import (Some ''plugins/missing''),
                                         SpinnerFail failMessage]))
   \<and> filter isTaskEvent (devCategoryTrace @ [GetProviderPlugins, Import (Some ''plugins/missing''),
                                         SpinnerFail failMessage]) = []"
proof -
  let ?w = missingProviderPlugin
  have m: "mergeConfig ?w (envName (exeInfo devCtx)) (devCtx, []) =
      (Inr devMeta, (devResolved, [GetTeamProviderInfo ''/p'', EnsureEnvParamManager ''dev'',
         GetBackendConfig ''/p'', HasResourceParamManager ''hosting'' ''ElasticContainer'',
         SetMeta ''/p'' devMeta]))"
    by (simp add: monad_defs phase_defs example_defs)
  have q: "queueCategoryTasks ?w (devResolved, [GetTeamProviderInfo ''/p'', EnsureEnvParamManager ''dev'',
         GetBackendConfig ''/p'', HasResourceParamManager ''hosting'' ''ElasticContainer'',
         SetMeta ''/p'' devMeta]) = (Inr [CategoryInitEnvTask ''auth.initEnv''], (devResolved, devCategoryTrace))"
    by (simp add: monad_defs phase_defs example_defs)
  have g: "getProviderPlugins ?w devResolved = Inr [(''awscloudformation'', ''plugins/missing'')]"
    by (simp add: example_defs)
  have l: "providers (exeInfo devResolved) = [] @ ''awscloudformation'' # []"
    by (simp add: example_defs)
  have a: "\<forall>q \<in> set []. loadedModule ?w devResolved (map_of [(''awscloudformation'', ''plugins/missing'')] q) \<noteq> None"
    by simp
  have e: "importModule ?w devResolved (map_of [(''awscloudformation'', ''plugins/missing'')] ''awscloudformation'')
       = Inl (JsError ''Error'' ''Cannot find module'')"
    by (simp add: example_defs)
  from provider_load_failure_aborts[OF m q g l a e, of JUndefined]
  show ?thesis by (simp add: providerLoadFault_def)
qed

section \<open>The sequential executor\<close>

text \<open>
  C8. The executor runs the tasks in list order, one at a time. The empty list
  succeeds and changes nothing. If the tasks before \<open>b\<close> succeed and \<open>b\<close> fails
  with \<open>e\<close>, the whole run fails with exactly \<open>e\<close>, in the state \<open>b\<close> left: the
  tasks started are those before \<open>b\<close> and \<open>b\<close>, and none of the tasks after \<open>b\<close>.
  If the run succeeds, every task was started, in list order.
\<close>

theorem sequential_stops_at_first_failure:
  "sequential w [] s = (Inr (), s) \<and>
   (sequential w pre s = (Inr (), (c1, tr1)) \<longrightarrow>
    runTask w b (c1, tr1 @ [TaskStarted b]) = (Inl e, (c2, tr2)) \<longrightarrow>
      sequential w (pre @ b # post) s = (Inl e, (c2, tr2)) \<and>
      startedTasks tr2 = startedTasks (snd s) @ pre @ [b]) \<and>
   (sequential w ts s = (Inr (), (c', tr')) \<longrightarrow>
      startedTasks tr' = startedTasks (snd s) @ ts)"
proof (intro conjI impI)
  show "sequential w [] s = (Inr (), s)" by (simp add: succeed_def)
next
  assume pre: "sequential w pre s = (Inr (), (c1, tr1))"
    and b: "runTask w b (c1, tr1 @ [TaskStarted b]) = (Inl e, (c2, tr2))"
  show "sequential w (pre @ b # post) s = (Inl e, (c2, tr2))"
    using pre b by (simp add: sequential_append andThen_def emit_def)
  have "startedTasks tr1 = startedTasks (snd s) @ pre"
    using sequential_startedTasks[of w pre "fst s" "snd s"] pre by simp
  then show "startedTasks tr2 = startedTasks (snd s) @ pre @ [b]"
    using runTask_startedTasks[OF b] by (simp add: startedTasks_append)
next
  assume "sequential w ts s = (Inr (), (c', tr'))"
  then show "startedTasks tr' = startedTasks (snd s) @ ts"
    using sequential_startedTasks[of w ts "fst s" "snd s"] by simp
qed

theorem sequential_stops_at_first_failure_witness:
  "sequential (failingHook ''B.initEnv'')
     [CategoryInitEnvTask ''A.initEnv'', CategoryInitEnvTask ''B.initEnv'',
      CategoryInitEnvTask ''C.initEnv''] (devCtx, [])
   = (Inl (JsError ''Error'' ''hook failed''),
      (devCtx, [TaskStarted (CategoryInitEnvTask ''A.initEnv''), HookInvoked ''A.initEnv'' [],
                TaskStarted (CategoryInitEnvTask ''B.initEnv''), HookInvoked ''B.initEnv'' []]))
   \<and> startedTasks (snd (snd (sequential devWorld
        [CategoryInitEnvTask ''A.initEnv'', CategoryInitEnvTask ''B.initEnv''] (devCtx, []))))
     = [CategoryInitEnvTask ''A.initEnv'', CategoryInitEnvTask ''B.initEnv'']"
proof -
  let ?A = "CategoryInitEnvTask ''A.initEnv''" and ?B = "CategoryInitEnvTask ''B.initEnv''"
  let ?C = "CategoryInitEnvTask ''C.initEnv''"
  let ?w = "failingHook ''B.initEnv''"
  have pre: "sequential ?w [?A] (devCtx, []) =
               (Inr (), (devCtx, [TaskStarted ?A, HookInvoked ''A.initEnv'' []]))"
    by (simp add: failingHook_def devWorld_def andThen_def emit_def invokeHook_def succeed_def)
  have b: "runTask ?w ?B (devCtx, [TaskStarted ?A, HookInvoked ''A.initEnv'' []] @ [TaskStarted ?B])
             = (Inl (JsError ''Error'' ''hook failed''),
                (devCtx, [TaskStarted ?A, HookInvoked ''A.initEnv'' [],
                          TaskStarted ?B, HookInvoked ''B.initEnv'' []]))"
    by (simp add: failingHook_def devWorld_def invokeHook_def)
  have ok: "sequential devWorld [?A, ?B] (devCtx, []) =
              (Inr (), (devCtx, [TaskStarted ?A, HookInvoked ''A.initEnv'' [],
                                 TaskStarted ?B, HookInvoked ''B.initEnv'' []]))"
    by (simp add: devWorld_def andThen_def emit_def invokeHook_def succeed_def)
  from sequential_stops_at_first_failure[of ?w "(devCtx, [])" "[?A]" devCtx _ ?B _ devCtx _ "[?C]"]
    pre b
  have "sequential ?w ([?A] @ ?B # [?C]) (devCtx, []) =
          (Inl (JsError ''Error'' ''hook failed''),
           (devCtx, [TaskStarted ?A, HookInvoked ''A.initEnv'' [],
                     TaskStarted ?B, HookInvoked ''B.initEnv'' []]))"
    by blast
  moreover
  from sequential_stops_at_first_failure[of devWorld "(devCtx, [])" _ _ _ _ _ _ _ _ "[?A, ?B]" devCtx
      "[TaskStarted ?A, HookInvoked ''A.initEnv'' [], TaskStarted ?B, HookInvoked ''B.initEnv'' []]"] ok
  have "startedTasks [TaskStarted ?A, HookInvoked ''A.initEnv'' [],
                      TaskStarted ?B, HookInvoked ''B.initEnv'' []] = [?A, ?B]"
    by simp
  ultimately show ?thesis using ok by simp
qed

section \<open>Failures of the phases\<close>

text \<open>
  C5. After the resolve steps, if the executor fails on the provider tasks with
  the error \<open>e\<close> (an \<open>Error\<close> object, as every thrown value of the model), the
  run fails with the fault \<open>amplifyFaultWithTroubleshootingLink\<close> is given to
  build: name \<open>ProjectInitFault\<close>, message
  \<open>Could not initialize platform for '\<close>, the environment name the run
  started with, \<open>': \<close> and \<open>e\<close>'s message, and \<open>e\<close> as cause; the fault
  carries them as the spec has that builder do. After the failing task only
  the timer is stopped and the spinner fails: no category task, no push and no
  outputs-changed call follow. What the executor did before it failed is the
  timer's start and events of provider tasks. If the provider phase and the
  refresh succeed and the executor fails on the category tasks with \<open>e\<close>,
  the same holds with \<open>Could not initialize categories for '\<close> in the message.
\<close>

theorem init_failures_are_wrapped:
  assumes "resolveSteps w (envName (exeInfo c0)) (isPullCommand c0) (c0, tr0)
             = (Inr (categoryTasks, providerPlugins, providerTasks), (c1, tr1))"
  shows
   "(sequential w providerTasks (c1, tr1 @ [StartCodePathTimer INIT_ENV_PLATFORM]) = (Inl e, (c2, tr2)) \<longrightarrow>
       initializeEnv w currentAmplifyMeta (c0, tr0) =
         (Inl (AmplifyFault ''ProjectInitFault''
                (''Could not initialize platform for '' @ [CHR 0x27] @ (envName (exeInfo c0)) @ [CHR 0x27] @ '': '' @ messageOf e)
                None resolutionHint e),
          (c2, tr2 @ [StopCodePathTimer INIT_ENV_PLATFORM, SpinnerFail failMessage]))
       \<and> (\<exists>ext. tr2 = tr1 @ StartCodePathTimer INIT_ENV_PLATFORM # ext \<and> list_all isTaskEvent ext
                \<and> set (startedTasks ext) \<subseteq> set providerTasks))
    \<and>
    (initPlatform w (envName (exeInfo c0)) providerTasks (c1, tr1) = (Inr (), (c2, tr2)) \<longrightarrow>
     refreshProjectDetails w
        (c2, tr2 @ [SpinnerSucceed (succeedMessage (isPullCommand c0) (envName (exeInfo c0)))])
        = (Inr (), (c3, tr3)) \<longrightarrow>
     sequential w categoryTasks (c3, tr3 @ [StartCodePathTimer INIT_ENV_CATEGORIES]) = (Inl e, (c4, tr4)) \<longrightarrow>
       initializeEnv w currentAmplifyMeta (c0, tr0) =
         (Inl (AmplifyFault ''ProjectInitFault''
                (''Could not initialize categories for '' @ [CHR 0x27] @ (envName (exeInfo c0)) @ [CHR 0x27] @ '': '' @ messageOf e)
                None resolutionHint e),
          (c4, tr4 @ [StopCodePathTimer INIT_ENV_CATEGORIES, SpinnerFail failMessage]))
       \<and> (\<exists>ext. tr4 = tr3 @ StartCodePathTimer INIT_ENV_CATEGORIES # ext \<and> list_all isTaskEvent ext
                \<and> set (startedTasks ext) \<subseteq> set categoryTasks))"
proof (intro conjI impI)
  assume f: "sequential w providerTasks (c1, tr1 @ [StartCodePathTimer INIT_ENV_PLATFORM]) = (Inl e, (c2, tr2))"
  have "untilPushDecision w (envName (exeInfo c0)) (isPullCommand c0) (c0, tr0) =
     (Inl (AmplifyFault ''ProjectInitFault''
            (''Could not initialize platform for '' @ [CHR 0x27] @ (envName (exeInfo c0)) @ [CHR 0x27] @ '': '' @ messageOf e)
            None resolutionHint e),
      (c2, tr2 @ [StopCodePathTimer INIT_ENV_PLATFORM]))"
    using assms initPlatform_fails[OF f] by (simp add: untilPushDecision_def andThen_def)
  from initializeEnv_fails[OF tryBlock_fails_before_outputs[OF untilOutputs_fails_before_push[OF this]]]
  show "initializeEnv w currentAmplifyMeta (c0, tr0) =
         (Inl (AmplifyFault ''ProjectInitFault''
                (''Could not initialize platform for '' @ [CHR 0x27] @ (envName (exeInfo c0)) @ [CHR 0x27] @ '': '' @ messageOf e)
                None resolutionHint e),
          (c2, tr2 @ [StopCodePathTimer INIT_ENV_PLATFORM, SpinnerFail failMessage]))"
    by simp
  from sequential_events[OF f]
  show "\<exists>ext. tr2 = tr1 @ StartCodePathTimer INIT_ENV_PLATFORM # ext \<and> list_all isTaskEvent ext
                \<and> set (startedTasks ext) \<subseteq> set providerTasks"
    by auto
next
  assume p: "initPlatform w (envName (exeInfo c0)) providerTasks (c1, tr1) = (Inr (), (c2, tr2))"
    and r: "refreshProjectDetails w
        (c2, tr2 @ [SpinnerSucceed (succeedMessage (isPullCommand c0) (envName (exeInfo c0)))])
        = (Inr (), (c3, tr3))"
    and f: "sequential w categoryTasks (c3, tr3 @ [StartCodePathTimer INIT_ENV_CATEGORIES]) = (Inl e, (c4, tr4))"
  have "untilPushDecision w (envName (exeInfo c0)) (isPullCommand c0) (c0, tr0) =
     (Inl (AmplifyFault ''ProjectInitFault''
            (''Could not initialize categories for '' @ [CHR 0x27] @ (envName (exeInfo c0)) @ [CHR 0x27] @ '': '' @ messageOf e)
            None resolutionHint e),
      (c4, tr4 @ [StopCodePathTimer INIT_ENV_CATEGORIES]))"
    using assms p r initCategories_fails[OF f]
    by (simp add: untilPushDecision_def andThen_def emit_def)
  from initializeEnv_fails[OF tryBlock_fails_before_outputs[OF untilOutputs_fails_before_push[OF this]]]
  show "initializeEnv w currentAmplifyMeta (c0, tr0) =
         (Inl (AmplifyFault ''ProjectInitFault''
                (''Could not initialize categories for '' @ [CHR 0x27] @ (envName (exeInfo c0)) @ [CHR 0x27] @ '': '' @ messageOf e)
                None resolutionHint e),
          (c4, tr4 @ [StopCodePathTimer INIT_ENV_CATEGORIES, SpinnerFail failMessage]))"
    by simp
  from sequential_events[OF f]
  show "\<exists>ext. tr4 = tr3 @ StartCodePathTimer INIT_ENV_CATEGORIES # ext \<and> list_all isTaskEvent ext
                \<and> set (startedTasks ext) \<subseteq> set categoryTasks"
    by auto
qed

text \<open>
  The example project with a failing provider hook, and with a failing category
  hook: the faults and the whole traces, written out.
\<close>

theorem init_failures_are_wrapped_witness:
  "initializeEnv (failingHook ''aws.initEnv'') JUndefined (devCtx, []) =
     (Inl (AmplifyFault ''ProjectInitFault''
            (''Could not initialize platform for '' @ [CHR 0x27] @ ''dev'' @ [CHR 0x27] @ '': hook failed'')
            None ''Review the error message and stack trace for additional information.''
            (JsError ''Error'' ''hook failed'')),
      (devCtx\<lparr>metaFile := Inr devMeta\<rparr>,
       [GetTeamProviderInfo ''/p'', EnsureEnvParamManager ''dev'', GetBackendConfig ''/p'',
        HasResourceParamManager ''hosting'' ''ElasticContainer'', SetMeta ''/p'' devMeta,
        GetMeta, GetAllCategoryPluginInfo, Import (Some ''plugins/auth''),
        Import (Some ''plugins/codegen''), GetProviderPlugins, Import (Some ''plugins/aws''),
        SpinnerStart ''Initializing your environment: dev'',
        StartCodePathTimer INIT_ENV_PLATFORM,
        TaskStarted (ProviderInitEnvTask awsModule devMeta ''awscloudformation''),
        HookInvoked ''aws.initEnv'' [JObject [(''Region'', JStr ''us-east-1'')]],
        StopCodePathTimer INIT_ENV_PLATFORM,
        SpinnerFail ''There was an error initializing your environment.'']))
   \<and> initializeEnv (failingHook ''auth.initEnv'') JUndefined (devCtx, []) =
     (Inl (AmplifyFault ''ProjectInitFault''
            (''Could not initialize categories for '' @ [CHR 0x27] @ ''dev'' @ [CHR 0x27] @ '': hook failed'')
            None ''Review the error message and stack trace for additional information.''
            (JsError ''Error'' ''hook failed'')),
      (devCtx\<lparr>metaFile := Inr devMeta\<rparr>,
       [GetTeamProviderInfo ''/p'', EnsureEnvParamManager ''dev'', GetBackendConfig ''/p'',
        HasResourceParamManager ''hosting'' ''ElasticContainer'', SetMeta ''/p'' devMeta,
        GetMeta, GetAllCategoryPluginInfo, Import (Some ''plugins/auth''),
        Import (Some ''plugins/codegen''), GetProviderPlugins, Import (Some ''plugins/aws''),
        SpinnerStart ''Initializing your environment: dev'',
        StartCodePathTimer INIT_ENV_PLATFORM,
        TaskStarted (ProviderInitEnvTask awsModule devMeta ''awscloudformation''),
        HookInvoked ''aws.initEnv'' [JObject [(''Region'', JStr ''us-east-1'')]],
        StopCodePathTimer INIT_ENV_PLATFORM,
        SpinnerSucceed ''Initialized provider successfully.'', GetProjectDetails,
        StartCodePathTimer INIT_ENV_CATEGORIES, TaskStarted (CategoryInitEnvTask ''auth.initEnv''),
        HookInvoked ''auth.initEnv'' [], StopCodePathTimer INIT_ENV_CATEGORIES,
        SpinnerFail ''There was an error initializing your environment.'']))"
proof -
  let ?w1 = "failingHook ''aws.initEnv''" and ?w2 = "failingHook ''auth.initEnv''"
  let ?hook = "HookInvoked ''aws.initEnv'' [JObject [(''Region'', JStr ''us-east-1'')]]"
  have r1: "resolveSteps ?w1 (envName (exeInfo devCtx)) (isPullCommand devCtx) (devCtx, [])
     = (Inr ([CategoryInitEnvTask ''auth.initEnv''], [(''awscloudformation'', ''plugins/aws'')],
             [devProviderTask]), (devResolved, devResolveTrace))"
    and r2: "resolveSteps ?w2 (envName (exeInfo devCtx)) (isPullCommand devCtx) (devCtx, [])
     = (Inr ([CategoryInitEnvTask ''auth.initEnv''], [(''awscloudformation'', ''plugins/aws'')],
             [devProviderTask]), (devResolved, devResolveTrace))"
    by (simp_all add: dev_isPull dev_resolveSteps)
  have f1: "sequential ?w1 [devProviderTask] (devResolved, devResolveTrace @ [StartCodePathTimer INIT_ENV_PLATFORM])
      = (Inl (JsError ''Error'' ''hook failed''),
         (devResolved, devResolveTrace @ [StartCodePathTimer INIT_ENV_PLATFORM, TaskStarted devProviderTask, ?hook]))"
    by (simp add: monad_defs example_defs)
  from init_failures_are_wrapped[OF r1, THEN conjunct1, THEN mp, OF f1, THEN conjunct1]
  have 1: "initializeEnv ?w1 JUndefined (devCtx, []) =
     (Inl (AmplifyFault ''ProjectInitFault''
            (''Could not initialize platform for '' @ [CHR 0x27] @ ''dev'' @ [CHR 0x27] @ '': hook failed'')
            None resolutionHint (JsError ''Error'' ''hook failed'')),
      (devResolved, devPlatformTrace @ [SpinnerFail failMessage]))"
    by (simp add: dev_isPull devPlatformTrace_def)
  have p2: "initPlatform ?w2 (envName (exeInfo devCtx)) [devProviderTask] (devResolved, devResolveTrace)
      = (Inr (), (devResolved, devPlatformTrace))"
    by (simp add: monad_defs phase_defs example_defs)
  have g2: "refreshProjectDetails ?w2
        (devResolved, devPlatformTrace @ [SpinnerSucceed (succeedMessage (isPullCommand devCtx) (envName (exeInfo devCtx)))])
        = (Inr (), (devResolved, devPlatformTrace @ [SpinnerSucceed ''Initialized provider successfully.'', GetProjectDetails]))"
    by (simp add: monad_defs phase_defs example_defs)
  have f2: "sequential ?w2 [CategoryInitEnvTask ''auth.initEnv'']
        (devResolved, (devPlatformTrace @ [SpinnerSucceed ''Initialized provider successfully.'', GetProjectDetails])
            @ [StartCodePathTimer INIT_ENV_CATEGORIES])
      = (Inl (JsError ''Error'' ''hook failed''),
         (devResolved, devPlatformTrace @ [SpinnerSucceed ''Initialized provider successfully.'', GetProjectDetails,
            StartCodePathTimer INIT_ENV_CATEGORIES, TaskStarted (CategoryInitEnvTask ''auth.initEnv''),
            HookInvoked ''auth.initEnv'' []]))"
    by (simp add: monad_defs example_defs)
  from init_failures_are_wrapped[OF r2, THEN conjunct2, THEN mp, OF p2, THEN mp, OF g2, THEN mp, OF f2, THEN conjunct1]
  have 2: "initializeEnv ?w2 JUndefined (devCtx, []) =
     (Inl (AmplifyFault ''ProjectInitFault''
            (''Could not initialize categories for '' @ [CHR 0x27] @ ''dev'' @ [CHR 0x27] @ '': hook failed'')
            None resolutionHint (JsError ''Error'' ''hook failed'')),
      (devResolved, devPlatformTrace @ [SpinnerSucceed ''Initialized provider successfully.'', GetProjectDetails,
            StartCodePathTimer INIT_ENV_CATEGORIES, TaskStarted (CategoryInitEnvTask ''auth.initEnv''),
            HookInvoked ''auth.initEnv'' [], StopCodePathTimer INIT_ENV_CATEGORIES,
            SpinnerFail failMessage]))"
    by (simp add: dev_isPull)
  from 1 2 show ?thesis
    by (simp add: resolutionHint_def failMessage_def devResolved_def devPlatformTrace_def
          devResolveTrace_def devCategoryTrace_def devProviderTask_def)
qed

text \<open>
  C3. If the run reaches the push with the push confirmed, the push tasks are
  queued, the tasks before \<open>b\<close> succeed and \<open>b\<close> fails with \<open>e\<close>, then the
  run fails with \<open>e\<close> itself, not wrapped, in the context \<open>b\<close> left, after
  the spinner's failure.
\<close>

theorem push_failure_propagates_unwrapped:
  assumes "untilPushDecision w (envName (exeInfo c0)) (isPullCommand c0) (c0, tr0)
             = (Inr providerPlugins, (c1, tr1))"
    and "forcePush (exeInfo c1) = Some True"
    and "queuePushTasks w providerPlugins (providers (exeInfo c1)) [] (c1, tr1)
             = (Inr (pre @ b # post), (c2, tr2))"
    and "sequential w pre (c2, tr2) = (Inr (), (c3, tr3))"
    and "runTask w b (c3, tr3 @ [TaskStarted b]) = (Inl e, (c4, tr4))"
  shows "initializeEnv w currentAmplifyMeta (c0, tr0) = (Inl e, (c4, tr4 @ [SpinnerFail failMessage]))"
proof -
  have "sequential w (pre @ b # post) (c2, tr2) = (Inl e, (c4, tr4))"
    using assms(4,5) by (simp add: sequential_append andThen_def emit_def)
  then have "untilOutputs w (envName (exeInfo c0)) (isPullCommand c0) (c0, tr0) = (Inl e, (c4, tr4))"
    using assms(1,2,3) by (simp add: untilOutputs_def pushPhase_def andThen_def getCtx_def)
  from initializeEnv_fails[OF tryBlock_fails_before_outputs[OF this]] show ?thesis .
qed

theorem push_failure_propagates_unwrapped_witness:
  "initializeEnv (failingHook ''aws.pushResources'') JUndefined (devCtx, [])
     = (Inl (JsError ''Error'' ''hook failed''), (devDecided True, devPushTrace @ [SpinnerFail failMessage]))"
proof -
  let ?w = "failingHook ''aws.pushResources''"
  have d: "untilPushDecision ?w (envName (exeInfo devCtx)) (isPullCommand devCtx) (devCtx, [])
     = (Inr [(''awscloudformation'', ''plugins/aws'')], (devDecided True, devDecisionTrace))"
    by (simp add: dev_isPull dev_untilPushDecision)
  have p: "forcePush (exeInfo (devDecided True)) = Some True"
    by (simp add: devDecided_def)
  have q: "queuePushTasks ?w [(''awscloudformation'', ''plugins/aws'')] (providers (exeInfo (devDecided True))) []
             (devDecided True, devDecisionTrace)
         = (Inr ([] @ devPushTask # []),
            (devDecided True, devDecisionTrace @ [Import (Some ''plugins/aws''), GetResourceStatus ''awscloudformation'']))"
    by (simp add: monad_defs example_defs)
  have s: "sequential ?w [] (devDecided True, devDecisionTrace @ [Import (Some ''plugins/aws''), GetResourceStatus ''awscloudformation''])
         = (Inr (), (devDecided True, devDecisionTrace @ [Import (Some ''plugins/aws''), GetResourceStatus ''awscloudformation'']))"
    by (simp add: succeed_def)
  have b: "runTask ?w devPushTask (devDecided True,
              (devDecisionTrace @ [Import (Some ''plugins/aws''), GetResourceStatus ''awscloudformation''])
                @ [TaskStarted devPushTask])
         = (Inl (JsError ''Error'' ''hook failed''), (devDecided True, devPushTrace))"
    by (simp add: monad_defs example_defs)
  from push_failure_propagates_unwrapped[OF d p q s b] show ?thesis .
qed



text \<open>
  C9. The outputs-changed hook is called once, with \<open>currentAmplifyMeta\<close>,
  in a run whose steps up to and including the push succeed, whether the push
  ran or was declined, and not at all in a run that failed before.
\<close>

theorem outputs_change_once_when_reached:
  assumes "untilOutputs w (envName (exeInfo c)) (isPullCommand c) (c, tr) = (r1, s1)"
  shows "filter isOutputsChange (snd (snd (initializeEnv w currentAmplifyMeta (c, tr))))
           = filter isOutputsChange tr
             @ (case r1 of Inl e \<Rightarrow> [] | Inr u \<Rightarrow> [OnCategoryOutputsChange currentAmplifyMeta])"
proof -
  obtain c1 tr1 where s1: "s1 = (c1, tr1)" by (cases s1)
  from addsD[OF adds_untilOutputs assms[unfolded s1], of "\<lambda>ev. \<not> isTailEvent ev"]
  obtain ext where ext: "tr1 = tr @ ext" "list_all (\<lambda>ev. \<not> isTailEvent ev) ext" by auto
  have f: "filter isOutputsChange ext = []"
    using ext(2) by (auto simp: list_all_iff filter_empty_conv dest: outputsChange_tail)
  show ?thesis
  proof (cases r1)
    case (Inl e)
    from initializeEnv_fails[OF tryBlock_fails_before_outputs[OF assms[unfolded s1 Inl]]]
    show ?thesis using ext f Inl by simp
  next
    case (Inr u)
    show ?thesis
      using assms ext f Inr s1
      by (auto simp: initializeEnv_def tryBlock_def tryCatch_def andThen_def call_def emit_def throwE_def
            split: sum.splits)
  qed
qed

theorem outputs_change_once_when_reached_witness:
  "filter isOutputsChange (snd (snd (initializeEnv devWorld JUndefined (devCtx, []))))
     = [OnCategoryOutputsChange JUndefined]
   \<and> filter isOutputsChange (snd (snd (initializeEnv declinedPush JUndefined (devCtx, []))))
     = [OnCategoryOutputsChange JUndefined]
   \<and> GetResourceStatus ''awscloudformation'' \<in> set (snd (snd (initializeEnv devWorld JUndefined (devCtx, []))))
   \<and> GetResourceStatus ''awscloudformation'' \<notin> set (snd (snd (initializeEnv declinedPush JUndefined (devCtx, []))))"
proof -
  have a: "untilOutputs devWorld (envName (exeInfo devCtx)) (isPullCommand devCtx) (devCtx, [])
       = (Inr (), (devDecided True, devPushTrace))"
    by (simp add: monad_defs phase_defs example_defs pushQuestion_def)
  have b: "untilOutputs declinedPush (envName (exeInfo devCtx)) (isPullCommand devCtx) (devCtx, [])
       = (Inr (), (devDecided False, devDecisionTrace))"
    by (simp add: monad_defs phase_defs example_defs pushQuestion_def)
  from outputs_change_once_when_reached[OF a, of JUndefined]
  have 1: "filter isOutputsChange (snd (snd (initializeEnv devWorld JUndefined (devCtx, []))))
     = [OnCategoryOutputsChange JUndefined]" by simp
  from outputs_change_once_when_reached[OF b, of JUndefined]
  have 2: "filter isOutputsChange (snd (snd (initializeEnv declinedPush JUndefined (devCtx, []))))
     = [OnCategoryOutputsChange JUndefined]" by simp
  have 3: "GetResourceStatus ''awscloudformation'' \<in> set (snd (snd (initializeEnv devWorld JUndefined (devCtx, []))))"
    by (simp add: monad_defs phase_defs example_defs pushQuestion_def)
  have 4: "GetResourceStatus ''awscloudformation'' \<notin> set (snd (snd (initializeEnv declinedPush JUndefined (devCtx, []))))"
    by (simp add: monad_defs phase_defs example_defs pushQuestion_def)
  from 1 2 3 4 show ?thesis by blast
qed

text \<open>
  A run whose confirmed push fails never calls the outputs-changed hook.
\<close>

theorem outputs_change_counterexample:
  "fst (initializeEnv (failingHook ''aws.pushResources'') JUndefined (devCtx, []))
     = Inl (JsError ''Error'' ''hook failed'')
   \<and> ConfirmPrompt pushQuestion
        \<in> set (snd (snd (initializeEnv (failingHook ''aws.pushResources'') JUndefined (devCtx, []))))
   \<and> HookInvoked ''aws.pushResources'' [JObject [(''resourcesToBeCreated'', JStr ''none'')]]
        \<in> set (snd (snd (initializeEnv (failingHook ''aws.pushResources'') JUndefined (devCtx, []))))
   \<and> filter isOutputsChange
        (snd (snd (initializeEnv (failingHook ''aws.pushResources'') JUndefined (devCtx, [])))) = []"
  by (simp add: monad_defs phase_defs example_defs pushQuestion_def)

end
